theory Spec2Isabelle
  imports Main
begin

section \<open>Conan library provisioning (lib/buildenvsetup/ceconan.ts)\<close>

text \<open>
  A shallow embedding of the class \<open>BuildEnvSetupCeConanDirect\<close>. JavaScript strings are
  modelled as \<open>string\<close>, objects that are iterated over as association lists in the
  iteration order of their keys, and a value that may be \<open>undefined\<close> as an \<open>option\<close>.
  A rejected promise or a thrown exception is the left summand of a sum type. The network,
  the clock and the file system are explicit: the servers' answers are an argument, the
  file system is a state that is passed along, and every request and log line is listed in
  the trace of events that each operation returns.
\<close>

subsection \<open>Build properties and candidate builds\<close>

text \<open>The type \<open>ConanBuildProperties\<close> of the source, field for field.\<close>

record ConanBuildProperties =
  os :: string
  build_type :: string
  compiler :: string
  compiler_version :: string
  compiler_libcxx :: string
  arch :: string
  stdver :: string
  flagcollection :: string

text \<open>
  The own enumerable properties of a \<open>ConanBuildProperties\<close> object as \<open>(key, value)\<close>
  pairs, in the order in which the object literal of \<open>getConanBuildProperties\<close> creates
  them; this is the order in which \<open>_.all\<close> visits them.
\<close>

definition properties :: "ConanBuildProperties \<Rightarrow> (string \<times> string) list" where
  "properties p =
     [(''os'', os p),
      (''build_type'', build_type p),
      (''compiler'', compiler p),
      (''compiler.version'', compiler_version p),
      (''compiler.libcxx'', compiler_libcxx p),
      (''arch'', arch p),
      (''stdver'', stdver p),
      (''flagcollection'', flagcollection p)]"

text \<open>
  One value of the object that the search endpoint returns: a record with a \<open>settings\<close>
  mapping. \<open>settings c k = None\<close> stands for \<open>elem.settings[k]\<close> being \<open>undefined\<close>
  (or any value that is not a string: such a value is never \<open>===\<close> to a string).
\<close>

record PossibleBuild =
  settings :: "string \<rightharpoonup> string"

text \<open>
  The entries of \<open>libraryDetails\<close> (type \<open>LibraryVersion\<close>), with the fields that this
  class reads; further fields are left open by the record's extension.
\<close>

record LibraryVersion =
  version :: string
  lookupname :: "string option"
  lookupversion :: "string option"
  packagedheaders :: bool

text \<open>
  A property value as \<open>props(name, default)\<close> returns it, and JavaScript's truthiness of
  such a value.
\<close>

datatype property = PBool bool | PString string | PNumber int

fun truthy :: "property \<Rightarrow> bool" where
  "truthy (PBool b) = b"
| "truthy (PString s) = (s \<noteq> [])"
| "truthy (PNumber n) = (n \<noteq> 0)"

definition props :: "(string \<rightharpoonup> property) \<Rightarrow> string \<Rightarrow> property \<Rightarrow> property" where
  "props table name dflt = (case table name of None \<Rightarrow> dflt | Some v \<Rightarrow> v)"

text \<open>
  The members that \<open>BuildEnvSetupCeConanDirect\<close> inherits from \<open>BuildEnvSetupBase\<close>
  (base.js, not part of the sources at hand) are taken as parameters: the compiler's id,
  \<open>compilerTypeOrGCC\<close>, and the methods \<open>getTarget\<close>, \<open>getLibcxx\<close>, \<open>hasBinariesToLink\<close>
  and \<open>shouldDownloadPackage\<close>. The first four are typed as the fields of
  \<open>ConanBuildProperties\<close> that receive their results.
\<close>

record ('key, 'lib) BuildEnvSetupBase =
  compiler_id :: string
  compilerTypeOrGCC :: string
  getTarget :: "'key \<Rightarrow> string"
  getLibcxx :: "'key \<Rightarrow> string"
  hasBinariesToLink :: "'lib \<Rightarrow> bool"
  shouldDownloadPackage :: "'lib \<Rightarrow> bool"

record ('key, 'lib) BuildEnvSetupCeConanDirect = "('key, 'lib) BuildEnvSetupBase" +
  host :: property
  onlyonstaticliblink :: property
  extractAllToRoot :: bool

text \<open>
  The constructor: \<open>super\<close> is the object that the base class has set up,
  \<open>buildenvsetup\<close> the properties behind \<open>compilerInfo.buildenvsetup.props\<close>.
\<close>

definition constructor ::
  "('key, 'lib) BuildEnvSetupBase \<Rightarrow> (string \<rightharpoonup> property) \<Rightarrow>
   ('key, 'lib) BuildEnvSetupCeConanDirect" where
  "constructor super buildenvsetup =
     \<lparr>compiler_id = compiler_id super,
      compilerTypeOrGCC = compilerTypeOrGCC super,
      getTarget = getTarget super,
      getLibcxx = getLibcxx super,
      hasBinariesToLink = hasBinariesToLink super,
      shouldDownloadPackage = shouldDownloadPackage super,
      host = props buildenvsetup ''host'' (PBool False),
      onlyonstaticliblink = props buildenvsetup ''onlyonstaticliblink'' (PBool False),
      extractAllToRoot = False\<rparr>"

definition getConanBuildProperties ::
  "('key, 'lib, 'more) BuildEnvSetupBase_scheme \<Rightarrow> 'key \<Rightarrow> ConanBuildProperties" where
  "getConanBuildProperties this key =
     (let arch = getTarget this key;
          libcxx = getLibcxx this key;
          stdver = '''';
          flagcollection = ''''
      in \<lparr>os = ''Linux'',
          build_type = ''Debug'',
          compiler = compilerTypeOrGCC this,
          compiler_version = compiler_id this,
          compiler_libcxx = libcxx,
          arch = arch,
          stdver = stdver,
          flagcollection = flagcollection\<rparr>)"

subsection \<open>The matcher\<close>

text \<open>
  \<open>_.findKey(obj, predicate)\<close> of underscore: the first key, in the iteration order of
  the object's keys, whose value satisfies the predicate; \<open>undefined\<close> (here \<open>None\<close>)
  when there is none.
\<close>

fun findKey :: "('k \<times> 'v) list \<Rightarrow> ('v \<Rightarrow> bool) \<Rightarrow> 'k option" where
  "findKey [] predicate = None"
| "findKey ((k, v) # rest) predicate = (if predicate v then Some k else findKey rest predicate)"

text \<open>
  The callback that \<open>findMatchingHash\<close> passes to \<open>_.all\<close>: the test of one property
  \<open>(key, val)\<close> of the build properties against one candidate \<open>elem\<close>.
\<close>

definition propertyMatches :: "PossibleBuild \<Rightarrow> string \<times> string \<Rightarrow> bool" where
  "propertyMatches elem kv =
     (case kv of (key, val) \<Rightarrow>
        if (key = ''compiler'' \<or> key = ''compiler.version'') \<and> settings elem key = Some ''cshared''
        then True
        else if key = ''compiler.libcxx'' \<and> settings elem ''compiler'' = Some ''cshared''
        then True
        else Some val = settings elem key)"

text \<open>\<open>_.all(buildProperties, ...)\<close> for one candidate.\<close>

definition buildMatches :: "ConanBuildProperties \<Rightarrow> PossibleBuild \<Rightarrow> bool" where
  "buildMatches buildProperties elem = list_all (propertyMatches elem) (properties buildProperties)"

definition findMatchingHash ::
  "ConanBuildProperties \<Rightarrow> (string \<times> PossibleBuild) list \<Rightarrow> string option" where
  "findMatchingHash buildProperties possibleBuilds =
     findKey possibleBuilds (buildMatches buildProperties)"

subsection \<open>Paths\<close>

text \<open>
  The functions of Node's \<open>path\<close> module that the class calls, in their POSIX variant,
  and \<open>String.prototype.startsWith\<close>. They belong to the platform, not to the
  repository; the definitions follow their documented behaviour. A path is split at every
  \<open>/\<close>; normalisation drops empty and \<open>.\<close> segments and lets a \<open>..\<close> segment remove the
  segment before it (above the root of an absolute path there is nothing to remove, a
  relative path keeps the leading \<open>..\<close> segments).
\<close>

fun segments :: "string \<Rightarrow> string list" where
  "segments [] = [[]]"
| "segments (c # cs) =
     (if c = CHR ''/'' then [] # segments cs
      else (case segments cs of [] \<Rightarrow> [[c]] | s # ss \<Rightarrow> (c # s) # ss))"

fun joinSegments :: "string list \<Rightarrow> string" where
  "joinSegments [] = []"
| "joinSegments [s] = s"
| "joinSegments (s # t # ss) = s @ CHR ''/'' # joinSegments (t # ss)"

definition normalizeSegment :: "bool \<Rightarrow> string list \<Rightarrow> string \<Rightarrow> string list" where
  "normalizeSegment allowAboveRoot res seg =
     (if seg = [] \<or> seg = ''.'' then res
      else if seg = ''..'' then
        (if res \<noteq> [] \<and> last res \<noteq> ''..'' then butlast res
         else if allowAboveRoot then res @ [''..'']
         else res)
      else res @ [seg])"

definition normalizeString :: "string \<Rightarrow> bool \<Rightarrow> string" where
  "normalizeString path allowAboveRoot =
     joinSegments (foldl (normalizeSegment allowAboveRoot) [] (segments path))"

definition path_normalize :: "string \<Rightarrow> string" where
  "path_normalize path =
     (if path = [] then ''.''
      else
        (let isAbsolute = (hd path = CHR ''/'');
             trailingSeparator = (last path = CHR ''/'');
             p = normalizeString path (\<not> isAbsolute)
         in if p = [] then (if isAbsolute then ''/'' else if trailingSeparator then ''./'' else ''.'')
            else (let q = (if trailingSeparator then p @ ''/'' else p)
                  in if isAbsolute then CHR ''/'' # q else q)))"

text \<open>\<open>path.join(...args)\<close>: the non-empty arguments, joined by \<open>/\<close> and normalised.\<close>

definition path_join :: "string list \<Rightarrow> string" where
  "path_join args =
     (let joined = joinSegments (filter (\<lambda>arg. arg \<noteq> []) args)
      in if joined = [] then ''.'' else path_normalize joined)"

text \<open>
  \<open>path.resolve(path)\<close> with one argument; \<open>cwd\<close> is the working directory of the
  process, which \<open>resolve\<close> prepends to a relative path.
\<close>

definition path_resolve :: "string \<Rightarrow> string \<Rightarrow> string" where
  "path_resolve cwd path =
     (let resolvedPath =
            (if path = [] then cwd @ ''/''
             else if hd path = CHR ''/'' then path @ ''/''
             else cwd @ ''/'' @ path @ ''/'');
          resolvedAbsolute = (hd resolvedPath = CHR ''/'');
          normalized = normalizeString resolvedPath (\<not> resolvedAbsolute)
      in if resolvedAbsolute then CHR ''/'' # normalized
         else if normalized \<noteq> [] then normalized else ''.'')"

text \<open>
  \<open>path.dirname(path)\<close>: trailing slashes and the last segment are cut off, scanning from
  the right and never looking at the first character.
\<close>

definition path_dirname :: "string \<Rightarrow> string" where
  "path_dirname path =
     (case path of
        [] \<Rightarrow> ''.''
      | c # cs \<Rightarrow>
          (let hasRoot = (c = CHR ''/'');
               r = dropWhile (\<lambda>x. x \<noteq> CHR ''/'') (dropWhile (\<lambda>x. x = CHR ''/'') (rev cs))
           in case r of
                [] \<Rightarrow> (if hasRoot then ''/'' else ''.'')
              | _ # front \<Rightarrow> (if hasRoot \<and> front = [] then ''//'' else c # rev front)))"

definition path_basename :: "string \<Rightarrow> string" where
  "path_basename path =
     rev (takeWhile (\<lambda>x. x \<noteq> CHR ''/'') (dropWhile (\<lambda>x. x = CHR ''/'') (rev path)))"

text \<open>\<open>s.startsWith(p)\<close>: \<open>p\<close> is a prefix of \<open>s\<close>, character by character.\<close>

fun startsWith :: "string \<Rightarrow> string \<Rightarrow> bool" where
  "startsWith s [] = True"
| "startsWith [] (p # ps) = False"
| "startsWith (c # cs) (p # ps) = (c = p \<and> startsWith cs ps)"

text \<open>
  A path lies at or below a directory: it is the directory, or it continues the
  directory's path after a \<open>/\<close>. (Meant for normalised paths.)
\<close>

definition below :: "string \<Rightarrow> string \<Rightarrow> bool" where
  "below dir path = (path = dir \<or> startsWith path (dir @ ''/''))"

definition getDestinationFilepath ::
  "('key, 'lib) BuildEnvSetupCeConanDirect \<Rightarrow> string \<Rightarrow> string \<Rightarrow> string \<Rightarrow> string" where
  "getDestinationFilepath this downloadPath zippedPath libId =
     (if extractAllToRoot this
      then (let filename = path_basename zippedPath in path_join [downloadPath, filename])
      else path_join [downloadPath, libId, zippedPath])"

text \<open>
  A canonical destination root: an absolute path other than \<open>/\<close> that normalisation
  leaves as it is (no empty, \<open>.\<close> or \<open>..\<close> segment and no trailing slash).
\<close>

definition canonical :: "string \<Rightarrow> bool" where
  "canonical root = (root \<noteq> ''/'' \<and> CHR ''/'' # normalizeString root False = root)"

subsection \<open>Errors, requests and log lines\<close>

text \<open>The reasons with which the promises of this class reject.\<close>

datatype error =
    NotFound                \<comment> \<open>the search answered 404: \<open>reject(`Not found (${url})`)\<close>\<close>
  | TransportError string   \<comment> \<open>\<open>fetch\<close> itself rejected\<close>
  | InvalidJson             \<comment> \<open>\<open>response.json()\<close> rejected\<close>
  | NoPackageUrl            \<comment> \<open>\<open>Unable to get package download URL from conan.\<close>\<close>
  | RequestFailed nat       \<comment> \<open>\<open>Unable to request library from conan: ${res.status}\<close>\<close>
  | FsError string          \<comment> \<open>a refusal of the file system; the argument is the error code\<close>
  | StreamError string      \<comment> \<open>an \<open>error\<close> event of an entry's stream, of tar or of gunzip\<close>

text \<open>
  The three GET requests. All go to the server \<open>this.host\<close>; a request is identified by
  what the URL is built from (the text of the URL and its percent-encoding are left out).
\<close>

datatype request =
    Search string string                \<comment> \<open>\<open>.../search\<close> for a library name and version\<close>
  | DownloadUrls string string string   \<comment> \<open>\<open>.../packages/${hash}/download_urls\<close>\<close>
  | Package string                      \<comment> \<open>the package archive at the resolved URL\<close>

datatype level = Error | Warn | Debug

text \<open>The log lines of the source, one constructor for each message text.\<close>

datatype message =
    ZipSlip string string               \<comment> \<open>\<open>Library ${libId}/${version} is using a zip-slip, skipping file\<close>\<close>
  | EntryHandling error                 \<comment> \<open>\<open>Error in entry handling: ${error}\<close>\<close>
  | StreamHandling error                \<comment> \<open>\<open>Error in stream handling: ${error}\<close>\<close>
  | TarHandling error                   \<comment> \<open>\<open>Error in tar handling: ${error}\<close>\<close>
  | GunzipHandling error                \<comment> \<open>\<open>Error in gunzip handling: ${error}\<close>\<close>
  | RequestingPackage nat string        \<comment> \<open>\<open>Error requesting package from conan: ${res.status} for ${packageUrl}\<close>\<close>
  | RequestHandling error               \<comment> \<open>\<open>Error in request handling: ${error}\<close>\<close>
  | UnexpectedListingError string string error
                                        \<comment> \<open>\<open>Unexpected error during getAllPossibleBuilds(${libid}, ${version}): \<close>\<close>
  | FoundHash string string             \<comment> \<open>\<open>Found conan hash ${hash} for ${libVer}\<close>\<close>
  | NoBuildFound string ConanBuildProperties
                                        \<comment> \<open>\<open>No build found for ${libVer} matching ${JSON.stringify(buildProperties)}\<close>\<close>
  | NotAvailable string                 \<comment> \<open>\<open>Library ${libVer} not available\<close>\<close>


text \<open>
  What the run leaves behind: a request sent, a line logged, and a failure that nothing
  handles. The last is a rejected promise without a handler or an \<open>error\<close> event of a
  stream without a listener; Node raises it as an uncaught exception, which ends the
  process unless the application has installed a handler of its own. A run has completed
  only if its trace holds no such event.
\<close>

datatype event = Fetch request | Log level message | Unhandled error

definition raisesUnhandled :: "event list \<Rightarrow> bool" where
  "raisesUnhandled events =
     list_ex (\<lambda>event. case event of Unhandled error \<Rightarrow> True | _ \<Rightarrow> False) events"

text \<open>
  What \<open>fetch\<close> does with a request: it rejects, or it resolves with a response that has
  a status and a body. The body is \<open>None\<close> when it cannot be read as what the caller
  expects (JSON for the two queries, a byte stream for the package).
\<close>

datatype 'body response = Rejected string | Response nat "'body option"

subsection \<open>Archives and the world outside\<close>

text \<open>
  The stream of one tar entry: it delivers bytes and then either ends or emits an error.
  An entry is the header's \<open>name\<close> and \<open>size\<close> together with its stream. The handler
  does not look at the header's type: directories and links arrive as entries of size
  zero.
\<close>

datatype readable = Ends string | Fails string string

record Entry =
  header_name :: string
  header_size :: nat
  stream :: readable

text \<open>
  How the unpacked archive ends after its entries: tar signals \<open>finish\<close>, or tar or
  gunzip emit an error.
\<close>

datatype ending = Finish | TarFailure string | GunzipFailure string

text \<open>
  The answers of the world outside: of the server to the three requests; of the clock
  (\<open>process.hrtime.bigint()\<close> when the download of a URL starts and when its archive
  finishes, in nanoseconds); and of the operating system when it is asked to create a
  directory or to open a file for writing, where \<open>Some code\<close> is a refusal (a file in
  the way, a missing permission, a full disk). Refusals are answers and not derived from
  the files of the model, because a write stream opens its file some time after it has
  been created: whether an earlier entry's file is on disk when a later entry asks for a
  directory is a matter of timing.
\<close>

record environment =
  search :: "string \<Rightarrow> string \<Rightarrow> (string \<times> PossibleBuild) list response"
  download_urls :: "string \<Rightarrow> string \<Rightarrow> string \<Rightarrow> (string \<rightharpoonup> string) response"
  package :: "string \<Rightarrow> (Entry list \<times> ending) response"
  hrtime :: "string \<Rightarrow> int \<times> int"
  mkdir_refused :: "string \<Rightarrow> string option"
  open_refused :: "string \<Rightarrow> string option"

subsection \<open>The file system\<close>

text \<open>
  The working directory of the process, the directories that exist, and the files (path
  and content) that the write streams opened so far leave on disk. Nothing that the class
  does depends on the files, so it does not matter when a stream's file appears on disk;
  the directories are those that \<open>mkdirp\<close>, which is awaited, has created.
\<close>

record filesystem =
  cwd :: string
  directories :: "string list"
  files :: "(string \<times> string) list"

text \<open>
  A directory path and the paths of the directories above it, from the top: each prefix
  of the path that ends before a \<open>/\<close>, and the path itself.
\<close>

fun parentsFrom :: "string \<Rightarrow> string \<Rightarrow> string list" where
  "parentsFrom seen [] = [seen]"
| "parentsFrom seen (c # cs) =
     (if c = CHR ''/'' \<and> seen \<noteq> [] then seen # parentsFrom (seen @ [c]) cs
      else parentsFrom (seen @ [c]) cs)"

definition parents :: "string \<Rightarrow> string list" where
  "parents dir = parentsFrom [] dir"

text \<open>
  \<open>mkdirp(dir)\<close> of fs-extra creates the directory and the missing ones above it; it
  throws when the operating system refuses.
\<close>

definition mkdirp :: "environment \<Rightarrow> string \<Rightarrow> filesystem \<Rightarrow> error + filesystem" where
  "mkdirp env dir fs =
     (case mkdir_refused env dir of
        Some code \<Rightarrow> Inl (FsError code)
      | None \<Rightarrow>
          Inr (fs\<lparr>directories :=
            parents dir @ filter (\<lambda>d. d \<notin> set (parents dir)) (directories fs)\<rparr>))"

text \<open>Bytes stored in a file that is open for writing.\<close>

definition writeFile :: "string \<Rightarrow> string \<Rightarrow> filesystem \<Rightarrow> filesystem" where
  "writeFile filepath content fs =
     fs\<lparr>files := (filepath, content) # filter (\<lambda>f. fst f \<noteq> filepath) (files fs)\<rparr>"

text \<open>
  \<open>fs.createWriteStream(filepath)\<close> opens the file for writing, which creates it or
  empties it. The file does not open when the path names a directory (it ends in \<open>/\<close>, or
  a directory of that path exists), when the directory of the path does not exist, or when
  the operating system refuses (as it also does when a later entry has put a directory at
  the path before the stream has opened); no file is made then. The result \<open>Inl\<close> is
  that failure: the \<open>error\<close> event of the write stream, not an exception thrown to the
  caller.
\<close>

definition createWriteStream :: "environment \<Rightarrow> string \<Rightarrow> filesystem \<Rightarrow> error + filesystem" where
  "createWriteStream env filepath fs =
     (if (filepath \<noteq> [] \<and> last filepath = CHR ''/'') \<or> filepath \<in> set (directories fs)
      then Inl (FsError ''EISDIR'')
      else if path_dirname filepath \<notin> set (directories fs) then Inl (FsError ''ENOENT'')
      else
        (case open_refused env filepath of
           Some code \<Rightarrow> Inl (FsError code)
         | None \<Rightarrow> Inr (writeFile filepath [] fs)))"

subsection \<open>Extraction\<close>

text \<open>
  The handler of the \<open>entry\<close> event. The result is \<open>None\<close> when the handler calls
  \<open>next()\<close> (at once for an entry of size zero, at the end of the entry's stream
  otherwise), and \<open>Some error\<close> when it calls \<open>reject(error)\<close>, after which \<open>next\<close> is
  never called; with it come the file system afterwards and the events. The source puts no
  listener on the write stream: when the file does not open, the handler goes on as if it
  had, no file is made, and the failure is left unhandled.
\<close>

definition onEntry ::
  "('key, 'lib) BuildEnvSetupCeConanDirect \<Rightarrow> environment \<Rightarrow> string \<Rightarrow> string \<Rightarrow> string \<Rightarrow>
   Entry \<Rightarrow> filesystem \<Rightarrow> error option \<times> filesystem \<times> event list" where
  "onEntry this env libId version' downloadPath entry fs =
     (let filepath = getDestinationFilepath this downloadPath (header_name entry) libId;
          resolved = path_resolve (cwd fs) (path_dirname filepath)
      in if \<not> startsWith resolved downloadPath
         then (None, fs, [Log Error (ZipSlip libId version')])
         else
           (case (if \<not> extractAllToRoot this then mkdirp env (path_dirname filepath) fs
                  else Inr fs) of
              Inl error \<Rightarrow> (Some error, fs, [Log Error (EntryHandling error)])
            | Inr fs1 \<Rightarrow>
                (case createWriteStream env filepath fs1 of
                   Inl unopened \<Rightarrow>
                     if header_size entry = 0 then (None, fs1, [Unhandled unopened])
                     else
                       (case stream entry of
                          Ends bytes \<Rightarrow> (None, fs1, [Unhandled unopened])
                        | Fails bytes error \<Rightarrow>
                            (Some (StreamError error), fs1,
                             [Unhandled unopened,
                              Log Error (StreamHandling (StreamError error))]))
                 | Inr fs2 \<Rightarrow>
                     if header_size entry = 0 then (None, fs2, [])
                     else
                       (case stream entry of
                          Ends bytes \<Rightarrow> (None, writeFile filepath bytes fs2, [])
                        | Fails bytes error \<Rightarrow>
                            (Some (StreamError error), writeFile filepath bytes fs2,
                             [Log Error (StreamHandling (StreamError error))])))))"

text \<open>
  The entries of one archive, handled one after the other; a rejection ends the
  processing, since the handler does not ask for the next entry then.
\<close>

fun extractEntries ::
  "('key, 'lib) BuildEnvSetupCeConanDirect \<Rightarrow> environment \<Rightarrow> string \<Rightarrow> string \<Rightarrow> string \<Rightarrow>
   Entry list \<Rightarrow> filesystem \<Rightarrow> error option \<times> filesystem \<times> event list" where
  "extractEntries this env libId version' downloadPath [] fs = (None, fs, [])"
| "extractEntries this env libId version' downloadPath (entry # entries) fs =
     (case onEntry this env libId version' downloadPath entry fs of
        (Some error, fs1, events1) \<Rightarrow> (Some error, fs1, events1)
      | (None, fs1, events1) \<Rightarrow>
          (case extractEntries this env libId version' downloadPath entries fs1 of
             (result, fs2, events2) \<Rightarrow> (result, fs2, events1 @ events2)))"

text \<open>
  The result of one download. \<open>time\<close> is the number of milliseconds whose decimal
  text the source stores (\<open>toString()\<close> is left out).
\<close>

record BuildEnvDownloadInfo =
  step :: string
  packageUrl :: string
  time :: int

text \<open>Division of two \<open>BigInt\<close>s by a divisor other than zero truncates towards zero.\<close>

definition bigint_div :: "int \<Rightarrow> int \<Rightarrow> int" where
  "bigint_div a b = sgn a * sgn b * (\<bar>a\<bar> div \<bar>b\<bar>)"

definition downloadAndExtractPackage ::
  "('key, 'lib) BuildEnvSetupCeConanDirect \<Rightarrow> environment \<Rightarrow> string \<Rightarrow> string \<Rightarrow> string \<Rightarrow>
   string \<Rightarrow> filesystem \<Rightarrow> (error + BuildEnvDownloadInfo) \<times> filesystem \<times> event list" where
  "downloadAndExtractPackage this env libId version' downloadPath url fs =
     (case package env url of
        Rejected error \<Rightarrow>
          (Inl (TransportError error), fs,
           [Fetch (Package url), Log Error (RequestHandling (TransportError error))])
      | Response status body \<Rightarrow>
          (case (if 200 \<le> status \<and> status \<le> 299 then body else None) of
             None \<Rightarrow>
               (Inl (RequestFailed status), fs,
                [Fetch (Package url), Log Error (RequestingPackage status url)])
           | Some (entries, ending) \<Rightarrow>
               (case extractEntries this env libId version' downloadPath entries fs of
                  (Some error, fs1, events1) \<Rightarrow> (Inl error, fs1, Fetch (Package url) # events1)
                | (None, fs1, events1) \<Rightarrow>
                    (case ending of
                       Finish \<Rightarrow>
                         (case hrtime env url of
                            (startTime, endTime) \<Rightarrow>
                              (Inr \<lparr>step = ''Download of '' @ libId @ '' '' @ version',
                                    packageUrl = url,
                                    time = bigint_div (endTime - startTime) 1000000\<rparr>,
                               fs1, Fetch (Package url) # events1))
                     | TarFailure error \<Rightarrow>
                         (Inl (StreamError error), fs1,
                          Fetch (Package url) # events1 @ [Log Error (TarHandling (StreamError error))])
                     | GunzipFailure error \<Rightarrow>
                         (Inl (StreamError error), fs1,
                          Fetch (Package url) # events1 @
                            [Log Error (GunzipHandling (StreamError error))])))))"

subsection \<open>The repository client\<close>

text \<open>
  \<open>getAllPossibleBuilds\<close>. On the status 404 the source rejects and, having no
  \<open>return\<close> there, goes on to \<open>resolve(response.json())\<close>: the promise is settled
  already, so the call changes nothing, but the promise of \<open>response.json()\<close> is left
  without a handler and, when the body is not JSON, rejects unhandled.
\<close>

definition getAllPossibleBuilds ::
  "environment \<Rightarrow> string \<Rightarrow> string \<Rightarrow> (error + (string \<times> PossibleBuild) list) \<times> event list" where
  "getAllPossibleBuilds env libid version' =
     (case search env libid version' of
        Rejected err \<Rightarrow>
          (Inl (TransportError err),
           [Fetch (Search libid version'),
            Log Error (UnexpectedListingError libid version' (TransportError err))])
      | Response status json \<Rightarrow>
          if status = 404
          then (Inl NotFound,
                Fetch (Search libid version') #
                  (case json of None \<Rightarrow> [Unhandled InvalidJson] | Some builds \<Rightarrow> []))
          else
            (case json of
               None \<Rightarrow> (Inl InvalidJson, [Fetch (Search libid version')])
             | Some builds \<Rightarrow> (Inr builds, [Fetch (Search libid version')])))"

definition getPackageUrl ::
  "environment \<Rightarrow> string \<Rightarrow> string \<Rightarrow> string \<Rightarrow> (error + string) \<times> event list" where
  "getPackageUrl env libid version' hash =
     (case download_urls env libid version' hash of
        Rejected err \<Rightarrow> (Inl (TransportError err), [Fetch (DownloadUrls libid version' hash)])
      | Response status json \<Rightarrow>
          (case json of
             None \<Rightarrow> (Inl InvalidJson, [Fetch (DownloadUrls libid version' hash)])
           | Some body \<Rightarrow>
               (case body ''conan_package.tgz'' of
                  None \<Rightarrow> (Inl NoPackageUrl, [Fetch (DownloadUrls libid version' hash)])
                | Some packageURL \<Rightarrow>
                    if packageURL = [] then (Inl NoPackageUrl, [Fetch (DownloadUrls libid version' hash)])
                    else (Inr packageURL, [Fetch (DownloadUrls libid version' hash)]))))"

subsection \<open>The orchestrator\<close>

text \<open>\<open>a || b\<close> for an optional string \<open>a\<close>: \<open>b\<close> when \<open>a\<close> is \<open>undefined\<close> or empty.\<close>

fun orElse :: "string option \<Rightarrow> string \<Rightarrow> string" where
  "orElse None b = b"
| "orElse (Some a) b = (if a = [] then b else a)"

text \<open>
  An element of \<open>allLibraryBuilds\<close>. \<open>possibleBuilds\<close> is what the promise
  \<open>getAllPossibleBuilds(...).catch(() => false)\<close> resolves to: \<open>None\<close> for \<open>false\<close>.
\<close>

record LibVerBuilds =
  lib_id :: string
  lib_version :: string
  lib_lookupname :: "string option"
  lib_lookupversion :: "string option"
  possibleBuilds :: "(string \<times> PossibleBuild) list option"

text \<open>The \<open>_.each\<close> loop of \<open>download\<close>, which starts one search per library.\<close>

fun startSearches ::
  "('key, 'more LibraryVersion_scheme) BuildEnvSetupCeConanDirect \<Rightarrow> environment \<Rightarrow>
   (string \<times> 'more LibraryVersion_scheme) list \<Rightarrow> LibVerBuilds list \<times> event list" where
  "startSearches this env [] = ([], [])"
| "startSearches this env ((libId, details) # rest) =
     (case startSearches this env rest of
        (builds, events) \<Rightarrow>
          if packagedheaders details \<or> hasBinariesToLink this details then
            (let lookupname' = orElse (lookupname details) libId;
                 lookupversion' = orElse (lookupversion details) (version details)
             in case getAllPossibleBuilds env lookupname' lookupversion' of
                  (found, events1) \<Rightarrow>
                    (\<lparr>lib_id = libId,
                      lib_version = version details,
                      lib_lookupname = lookupname details,
                      lib_lookupversion = lookupversion details,
                      possibleBuilds = (case found of Inl _ \<Rightarrow> None | Inr json \<Rightarrow> Some json)\<rparr>
                       # builds,
                     events1 @ events))
          else (builds, events))"

text \<open>
  One element of \<open>allDownloads\<close>:
  \<open>getPackageUrl(...).then(downloadUrl => downloadAndExtractPackage(...))\<close>.
\<close>

definition fetchPackage ::
  "('key, 'lib) BuildEnvSetupCeConanDirect \<Rightarrow> environment \<Rightarrow> string \<Rightarrow> string \<Rightarrow> string \<Rightarrow>
   string \<Rightarrow> string \<Rightarrow> filesystem \<Rightarrow> (error + BuildEnvDownloadInfo) \<times> filesystem \<times> event list" where
  "fetchPackage this env libId lookupname' lookupversion' hash dirPath fs =
     (case getPackageUrl env lookupname' lookupversion' hash of
        (Inl error, events) \<Rightarrow> (Inl error, fs, events)
      | (Inr downloadUrl, events) \<Rightarrow>
          (case downloadAndExtractPackage this env libId lookupversion' dirPath downloadUrl fs of
             (result, fs1, events1) \<Rightarrow> (result, fs1, events @ events1)))"

text \<open>
  The \<open>for\<close> loop of \<open>download\<close>. The downloads that it dispatches run concurrently in
  the source; here each runs to its end when it is dispatched, so that they touch the file
  system in the order of their dispatch.
\<close>

fun dispatchDownloads ::
  "('key, 'lib) BuildEnvSetupCeConanDirect \<Rightarrow> environment \<Rightarrow> ConanBuildProperties \<Rightarrow> string \<Rightarrow>
   LibVerBuilds list \<Rightarrow> filesystem \<Rightarrow>
   (error + BuildEnvDownloadInfo) list \<times> filesystem \<times> event list" where
  "dispatchDownloads this env buildProperties dirPath [] fs = ([], fs, [])"
| "dispatchDownloads this env buildProperties dirPath (libVerBuilds # rest) fs =
     (let lookupname' = orElse (lib_lookupname libVerBuilds) (lib_id libVerBuilds);
          lookupversion' = orElse (lib_lookupversion libVerBuilds) (lib_version libVerBuilds);
          libVer = lookupname' @ ''/'' @ lookupversion'
      in case (case possibleBuilds libVerBuilds of
                 None \<Rightarrow> (None, fs, [Log Warn (NotAvailable libVer)])
               | Some builds \<Rightarrow>
                   (case findMatchingHash buildProperties builds of
                      None \<Rightarrow> (None, fs, [Log Warn (NoBuildFound libVer buildProperties)])
                    | Some hash \<Rightarrow>
                        if hash = [] then (None, fs, [Log Warn (NoBuildFound libVer buildProperties)])
                        else
                          (case fetchPackage this env (lib_id libVerBuilds) lookupname'
                                  lookupversion' hash dirPath fs of
                             (result, fs1, events1) \<Rightarrow>
                               (Some result, fs1, Log Debug (FoundHash hash libVer) # events1)))) of
           (dispatched, fs1, events1) \<Rightarrow>
             (case dispatchDownloads this env buildProperties dirPath rest fs1 of
                (allDownloads, fs2, events2) \<Rightarrow>
                  ((case dispatched of None \<Rightarrow> [] | Some result \<Rightarrow> [result]) @ allDownloads,
                   fs2, events1 @ events2)))"

text \<open>
  \<open>Promise.all\<close>: the results in the order of the promises when all fulfil, a rejection
  when one rejects. When several reject, the source sees the one that rejects first in
  time; the model takes the first in the order of dispatch.
\<close>

fun promiseAll :: "(error + 'a) list \<Rightarrow> error + 'a list" where
  "promiseAll [] = Inr []"
| "promiseAll (Inl error # rest) = Inl error"
| "promiseAll (Inr x # rest) = (case promiseAll rest of Inl error \<Rightarrow> Inl error | Inr xs \<Rightarrow> Inr (x # xs))"

definition download ::
  "('key, 'more LibraryVersion_scheme) BuildEnvSetupCeConanDirect \<Rightarrow> environment \<Rightarrow> 'key \<Rightarrow>
   string \<Rightarrow> (string \<times> 'more LibraryVersion_scheme) list \<Rightarrow> filesystem \<Rightarrow>
   (error + BuildEnvDownloadInfo list) \<times> filesystem \<times> event list" where
  "download this env key dirPath libraryDetails fs =
     (case startSearches this env libraryDetails of
        (allLibraryBuilds, events) \<Rightarrow>
          (let buildProperties = getConanBuildProperties this key
           in case dispatchDownloads this env buildProperties dirPath allLibraryBuilds fs of
                (allDownloads, fs1, events1) \<Rightarrow> (promiseAll allDownloads, fs1, events @ events1)))"

text \<open>
  The method \<open>setup\<close> of the class (the name alone is a keyword of Isabelle).
\<close>

definition ceconan_setup ::
  "('key, 'more LibraryVersion_scheme) BuildEnvSetupCeConanDirect \<Rightarrow> environment \<Rightarrow> 'key \<Rightarrow>
   string \<Rightarrow> (string \<times> 'more LibraryVersion_scheme) list \<Rightarrow> bool \<Rightarrow> filesystem \<Rightarrow>
   (error + BuildEnvDownloadInfo list) \<times> filesystem \<times> event list" where
  "ceconan_setup this env key dirPath libraryDetails binary fs =
     (if \<not> truthy (host this) then (Inr [], fs, [])
      else if truthy (onlyonstaticliblink this) \<and> \<not> binary then (Inr [], fs, [])
      else
        (let librariesToDownload =
               filter (\<lambda>entry. shouldDownloadPackage this (snd entry)) libraryDetails
         in download this env key dirPath librariesToDownload fs))"

subsection \<open>Example inputs\<close>

text \<open>
  The build properties of the end-to-end scenario: gcc 11 with libstdc++ on x86_64.
\<close>

definition gcc11 :: ConanBuildProperties where
  "gcc11 = \<lparr>os = ''Linux'', build_type = ''Debug'', compiler = ''gcc'',
     compiler_version = ''11'', compiler_libcxx = ''libstdc++'', arch = ''x86_64'',
     stdver = '''', flagcollection = ''''\<rparr>"

text \<open>A candidate whose settings are those of \<open>gcc11\<close>, attribute for attribute.\<close>

definition exactBuild :: PossibleBuild where
  "exactBuild = \<lparr>settings = map_of
     [(''os'', ''Linux''), (''build_type'', ''Debug''), (''compiler'', ''gcc''),
      (''compiler.version'', ''11''), (''compiler.libcxx'', ''libstdc++''),
      (''arch'', ''x86_64''), (''stdver'', ''''), (''flagcollection'', '''')]\<rparr>"

text \<open>
  A candidate whose \<open>compiler\<close> setting is the sentinel while its \<open>compiler.version\<close>
  setting is an ordinary version.
\<close>

definition sharedCompilerOnly :: PossibleBuild where
  "sharedCompilerOnly = \<lparr>settings = map_of
     [(''os'', ''Linux''), (''build_type'', ''Debug''), (''compiler'', ''cshared''),
      (''compiler.version'', ''10''), (''compiler.libcxx'', ''libstdc++''),
      (''arch'', ''x86_64''), (''stdver'', ''''), (''flagcollection'', '''')]\<rparr>"

text \<open>A compiler-agnostic candidate: all three compiler settings are the sentinel.\<close>

definition sharedBuild :: PossibleBuild where
  "sharedBuild = \<lparr>settings = map_of
     [(''os'', ''Linux''), (''build_type'', ''Debug''), (''compiler'', ''cshared''),
      (''compiler.version'', ''cshared''), (''compiler.libcxx'', ''cshared''),
      (''arch'', ''x86_64''), (''stdver'', ''''), (''flagcollection'', '''')]\<rparr>"

text \<open>A candidate built for another architecture.\<close>

definition armBuild :: PossibleBuild where
  "armBuild = \<lparr>settings = map_of
     [(''os'', ''Linux''), (''build_type'', ''Debug''), (''compiler'', ''gcc''),
      (''compiler.version'', ''11''), (''compiler.libcxx'', ''libstdc++''),
      (''arch'', ''aarch64''), (''stdver'', ''''), (''flagcollection'', '''')]\<rparr>"

text \<open>
  "The settings of \<open>c\<close> equal \<open>d\<close> attribute for attribute": every property of \<open>d\<close> is a
  setting of \<open>c\<close> with the same value.
\<close>

definition settingsEqual :: "ConanBuildProperties \<Rightarrow> PossibleBuild \<Rightarrow> bool" where
  "settingsEqual d c = list_all (\<lambda>kv. settings c (fst kv) = Some (snd kv)) (properties d)"

text \<open>
  An instance for gcc 11, as the constructor builds it when the property \<open>host\<close> is set,
  and one for a compiler without that property.
\<close>

definition gccBase :: "(unit, LibraryVersion) BuildEnvSetupBase" where
  "gccBase =
     \<lparr>compiler_id = ''11'', compilerTypeOrGCC = ''gcc'', getTarget = (\<lambda>key. ''x86_64''),
      getLibcxx = (\<lambda>key. ''libstdc++''), hasBinariesToLink = (\<lambda>details. False),
      shouldDownloadPackage = packagedheaders\<rparr>"

definition gccSetup :: "(unit, LibraryVersion) BuildEnvSetupCeConanDirect" where
  "gccSetup = constructor gccBase [''host'' \<mapsto> PString ''https://conan.example'']"

definition staticOnlySetup :: "(unit, LibraryVersion) BuildEnvSetupCeConanDirect" where
  "staticOnlySetup = constructor gccBase
     [''host'' \<mapsto> PString ''https://conan.example'', ''onlyonstaticliblink'' \<mapsto> PBool True]"

definition hostlessSetup :: "(unit, LibraryVersion) BuildEnvSetupCeConanDirect" where
  "hostlessSetup = constructor gccBase Map.empty"

text \<open>A file system with nothing in it yet.\<close>

definition emptyDisk :: filesystem where
  "emptyDisk = \<lparr>cwd = ''/home/ce'', directories = [], files = []\<rparr>"

text \<open>
  The archive of the end-to-end scenario; an archive whose entry leaves the destination
  \<open>/tmp/dl\<close> of library \<open>lib\<close> for the sibling directory \<open>/tmp/dl-evil\<close>; and an
  archive with the entry of a directory, as tar writes it: the name ends in \<open>/\<close> and the
  size is zero.
\<close>

definition fixtureArchive :: "Entry list" where
  "fixtureArchive =
     [\<lparr>header_name = ''include/foo.h'', header_size = 6, stream = Ends ''int f;''\<rparr>,
      \<lparr>header_name = ''lib/libfoo.a'', header_size = 4, stream = Ends ''!<ar''\<rparr>]"

definition siblingArchive :: "Entry list" where
  "siblingArchive =
     [\<lparr>header_name = ''../../dl-evil/x'', header_size = 1, stream = Ends ''!''\<rparr>]"

definition directoryArchive :: "Entry list" where
  "directoryArchive =
     [\<lparr>header_name = ''include/'', header_size = 0, stream = Ends []\<rparr>]"

text \<open>
  A world whose server knows the library \<open>mylib\<close> only, with one build for gcc 11, and
  answers 404 with a JSON body for any other; its disk refuses nothing. Variants of it:
  the server's 404 has a body that is not JSON; the answer to the query for download URLs
  lacks the package's URL; the server serves the hostile archive; the disk is read-only.
\<close>

definition fixtureServer :: environment where
  "fixtureServer =
     \<lparr>search = (\<lambda>libid version'.
        if libid = ''mylib'' then Response 200 (Some [(''abc123'', exactBuild)])
        else Response 404 (Some [])),
      download_urls = (\<lambda>libid version' hash.
        Response 200 (Some [''conan_package.tgz'' \<mapsto> ''https://conan.example/mylib.tgz''])),
      package = (\<lambda>url. Response 200 (Some (fixtureArchive, Finish))),
      hrtime = (\<lambda>url. (1000000, 43000000)),
      mkdir_refused = (\<lambda>dir. None),
      open_refused = (\<lambda>filepath. None)\<rparr>"

definition plainTextServer :: environment where
  "plainTextServer = fixtureServer\<lparr>search := (\<lambda>libid version'.
     if libid = ''mylib'' then Response 200 (Some [(''abc123'', exactBuild)])
     else Response 404 None)\<rparr>"

definition brokenServer :: environment where
  "brokenServer = fixtureServer\<lparr>download_urls :=
     (\<lambda>libid version' hash. Response 200 (Some [''conan_manifest.txt'' \<mapsto> ''https://conan.example/m'']))\<rparr>"

definition siblingServer :: environment where
  "siblingServer = fixtureServer\<lparr>package := (\<lambda>url. Response 200 (Some (siblingArchive, Finish)))\<rparr>"

definition readOnlyDisk :: environment where
  "readOnlyDisk = fixtureServer\<lparr>mkdir_refused := (\<lambda>dir. Some ''EACCES'')\<rparr>"

definition requestedLibraries :: "(string \<times> LibraryVersion) list" where
  "requestedLibraries =
     [(''nolib'', \<lparr>version = ''1.0'', lookupname = None, lookupversion = None,
         packagedheaders = True\<rparr>),
      (''mylib'', \<lparr>version = ''2.1'', lookupname = None, lookupversion = None,
         packagedheaders = True\<rparr>)]"

section \<open>Properties\<close>

subsection \<open>Auxiliary facts\<close>

lemma findKey_find: "findKey bs P = map_option fst (find (\<lambda>hc. P (snd hc)) bs)"
  by (induction bs) auto

lemma findKey_append:
  "findKey (pre @ rest) P = (case findKey pre P of None \<Rightarrow> findKey rest P | Some k \<Rightarrow> Some k)"
  by (induction pre) auto

lemma findKey_none: "list_all (\<lambda>hc. \<not> P (snd hc)) pre \<Longrightarrow> findKey pre P = None"
  by (induction pre) auto

lemma buildMatches_cases:
  "buildMatches d c \<longleftrightarrow>
     settings c ''os'' = Some (os d) \<and>
     settings c ''build_type'' = Some (build_type d) \<and>
     (settings c ''compiler'' = Some ''cshared'' \<or> settings c ''compiler'' = Some (compiler d)) \<and>
     (settings c ''compiler.version'' = Some ''cshared'' \<or>
        settings c ''compiler.version'' = Some (compiler_version d)) \<and>
     (settings c ''compiler'' = Some ''cshared'' \<or>
        settings c ''compiler.libcxx'' = Some (compiler_libcxx d)) \<and>
     settings c ''arch'' = Some (arch d) \<and>
     settings c ''stdver'' = Some (stdver d) \<and>
     settings c ''flagcollection'' = Some (flagcollection d)"
  by (auto simp add: buildMatches_def properties_def propertyMatches_def)

lemma settingsEqual_matches: "settingsEqual d c \<Longrightarrow> buildMatches d c"
  by (simp add: settingsEqual_def buildMatches_cases properties_def)

lemma startsWith_append: "startsWith (p @ s) p"
  by (induction p) auto

lemma startsWith_append_same: "startsWith (r @ a) (r @ b) = startsWith a b"
  by (induction r) auto

lemma segments_nonempty: "segments s \<noteq> []"
  by (induction s) (auto split: list.splits)

lemma segments_append_slash: "segments (a @ CHR ''/'' # b) = segments a @ segments b"
  using segments_nonempty by (induction a) (auto split: list.splits)

lemma joinSegments_append:
  "st \<noteq> [] \<Longrightarrow> ss \<noteq> [] \<Longrightarrow>
   joinSegments (st @ ss) = joinSegments st @ CHR ''/'' # joinSegments ss"
  by (induction st rule: joinSegments.induct) (auto simp: neq_Nil_conv)

text \<open>A canonical root is \<open>/\<close> followed by its segments, of which there is at least one.\<close>

lemma canonical_shape:
  assumes "canonical root"
  obtains st where "root = CHR ''/'' # joinSegments st" "st \<noteq> []"
    "foldl (normalizeSegment False) [] (segments root) = st"
proof -
  let ?st = "foldl (normalizeSegment False) [] (segments root)"
  from assms have eq: "root = CHR ''/'' # joinSegments ?st" and ne: "root \<noteq> ''/''"
    by (simp_all add: canonical_def normalizeString_def)
  from eq ne have "?st \<noteq> []" by (cases ?st) auto
  with eq show thesis using that by blast
qed

text \<open>The paths of the end-to-end scenario below a canonical root.\<close>

lemma fixture_paths:
  assumes "canonical root"
  shows "path_join [root, ''mylib'', ''include/foo.h''] = root @ ''/mylib/include/foo.h''"
    and "path_join [root, ''mylib'', ''lib/libfoo.a''] = root @ ''/mylib/lib/libfoo.a''"
    and "path_dirname (root @ ''/mylib/include/foo.h'') = root @ ''/mylib/include''"
    and "path_dirname (root @ ''/mylib/lib/libfoo.a'') = root @ ''/mylib/lib''"
    and "path_resolve c (root @ ''/mylib/include'') = root @ ''/mylib/include''"
    and "path_resolve c (root @ ''/mylib/lib'') = root @ ''/mylib/lib''"
proof -
  from assms obtain st where root: "root = CHR ''/'' # joinSegments st" and st: "st \<noteq> []"
    and fold: "foldl (normalizeSegment False) [] (segments root) = st"
    by (rule canonical_shape)
  have j3: "joinSegments (st @ [a, b, c]) =
      joinSegments st @ CHR ''/'' # a @ CHR ''/'' # b @ CHR ''/'' # c" for a b c
    using st by (simp add: joinSegments_append)
  have j2: "joinSegments (st @ [a, b]) = joinSegments st @ CHR ''/'' # a @ CHR ''/'' # b" for a b
    using st by (simp add: joinSegments_append)
  have n1: "normalizeString (root @ ''/mylib/include/foo.h'') False =
      joinSegments st @ ''/mylib/include/foo.h''"
    by (simp add: normalizeString_def segments_append_slash fold normalizeSegment_def j3)
  have n2: "normalizeString (root @ ''/mylib/lib/libfoo.a'') False =
      joinSegments st @ ''/mylib/lib/libfoo.a''"
    by (simp add: normalizeString_def segments_append_slash fold normalizeSegment_def j3)
  have n3: "normalizeString (root @ ''/mylib/include/'') False = joinSegments st @ ''/mylib/include''"
    by (simp add: normalizeString_def segments_append_slash fold normalizeSegment_def j2)
  have n4: "normalizeString (root @ ''/mylib/lib/'') False = joinSegments st @ ''/mylib/lib''"
    by (simp add: normalizeString_def segments_append_slash fold normalizeSegment_def j2)
  show "path_join [root, ''mylib'', ''include/foo.h''] = root @ ''/mylib/include/foo.h''"
    using n1 st by (simp add: path_join_def path_normalize_def root)
  show "path_join [root, ''mylib'', ''lib/libfoo.a''] = root @ ''/mylib/lib/libfoo.a''"
    using n2 st by (simp add: path_join_def path_normalize_def root)
  show "path_dirname (root @ ''/mylib/include/foo.h'') = root @ ''/mylib/include''"
    by (simp add: path_dirname_def root)
  show "path_dirname (root @ ''/mylib/lib/libfoo.a'') = root @ ''/mylib/lib''"
    by (simp add: path_dirname_def root)
  show "path_resolve c (root @ ''/mylib/include'') = root @ ''/mylib/include''"
    using n3 by (simp add: path_resolve_def root)
  show "path_resolve c (root @ ''/mylib/lib'') = root @ ''/mylib/lib''"
    using n4 by (simp add: path_resolve_def root)
qed

lemmas evaluate_paths =
  getDestinationFilepath_def path_join_def path_normalize_def normalizeString_def
  normalizeSegment_def path_resolve_def path_dirname_def path_basename_def

lemmas evaluate_entry =
  onEntry_def mkdirp_def parents_def createWriteStream_def writeFile_def path_dirname_def Let_def

text \<open>The directories above a path are prefixes of the path, and the path is the last.\<close>

lemma parentsFrom_self: "seen @ rest \<in> set (parentsFrom seen rest)"
proof (induction rest arbitrary: seen)
  case Nil
  show ?case by simp
next
  case (Cons c rest)
  from Cons.IH [of "seen @ [c]"] show ?case by auto
qed

lemma parentsFrom_length:
  "p \<in> set (parentsFrom seen rest) \<Longrightarrow> length p \<le> length seen + length rest"
proof (induction rest arbitrary: seen)
  case Nil
  then show ?case by simp
next
  case (Cons c rest)
  from Cons.prems have "p = seen \<or> p \<in> set (parentsFrom (seen @ [c]) rest)"
    by (auto split: if_splits)
  then show ?case
  proof
    assume "p = seen"
    then show ?thesis by simp
  next
    assume "p \<in> set (parentsFrom (seen @ [c]) rest)"
    from Cons.IH [OF this] show ?thesis by simp
  qed
qed

lemma parents_self: "dir \<in> set (parents dir)"
  using parentsFrom_self [of "[]" dir] by (simp add: parents_def)

lemma parents_length: "p \<in> set (parents dir) \<Longrightarrow> length p \<le> length dir"
  using parentsFrom_length [of p "[]" dir] by (simp add: parents_def)

text \<open>What \<open>mkdirp\<close> and \<open>createWriteStream\<close> do when nothing is refused.\<close>

lemma mkdirp_creates:
  assumes "mkdirp env dir fs = Inr fs1"
  shows "set (directories fs1) = set (parents dir) \<union> set (directories fs)"
    and "dir \<in> set (directories fs1)"
    and "files fs1 = files fs" and "cwd fs1 = cwd fs"
  using assms parents_self [of dir]
  by (auto simp add: mkdirp_def split: option.splits)

lemma mkdirp_accepted:
  "mkdir_refused env dir = None \<Longrightarrow> \<exists>fs1. mkdirp env dir fs = Inr fs1"
  by (simp add: mkdirp_def)

lemma createWriteStream_opens:
  assumes "createWriteStream env filepath fs = Inr fs1"
  shows "fs1 = writeFile filepath [] fs"
    and "path_dirname filepath \<in> set (directories fs)"
    and "filepath \<notin> set (directories fs)"
    and "directories fs1 = directories fs" and "cwd fs1 = cwd fs"
    and "map_of (files fs1) filepath = Some []"
  using assms
  by (auto simp add: createWriteStream_def writeFile_def split: if_splits option.splits)

lemma createWriteStream_accepted:
  assumes "open_refused env filepath = None"
    and "filepath \<noteq> []" "last filepath \<noteq> CHR ''/''"
    and "filepath \<notin> set (directories fs)"
    and "path_dirname filepath \<in> set (directories fs)"
  shows "createWriteStream env filepath fs = Inr (writeFile filepath [] fs)"
  using assms by (simp add: createWriteStream_def)

lemmas evaluate_instances =
  gccSetup_def staticOnlySetup_def hostlessSetup_def gccBase_def constructor_def props_def

text \<open>The two loops of \<open>download\<close> and \<open>Promise.all\<close> over a list in two parts.\<close>

lemma startSearches_append:
  "startSearches this env (a @ b) =
     (fst (startSearches this env a) @ fst (startSearches this env b),
      snd (startSearches this env a) @ snd (startSearches this env b))"
  by (induction a) (auto simp add: Let_def split: prod.splits)

lemma dispatchDownloads_append:
  "dispatchDownloads this env bp dirPath (a @ b) fs =
     (case dispatchDownloads this env bp dirPath a fs of
        (r1, fs1, e1) \<Rightarrow>
          (case dispatchDownloads this env bp dirPath b fs1 of
             (r2, fs2, e2) \<Rightarrow> (r1 @ r2, fs2, e1 @ e2)))"
proof (induction a arbitrary: fs)
  case Nil
  show ?case by (simp split: prod.splits)
next
  case (Cons l a)
  show ?case
    by (simp add: Cons.IH Let_def split: prod.splits option.splits)
qed

lemma promiseAll_rejects: "Inl e \<in> set results \<Longrightarrow> isl (promiseAll results)"
proof (induction results rule: promiseAll.induct)
  case 1
  then show ?case by simp
next
  case (2 error rest)
  then show ?case by simp
next
  case (3 x rest)
  then show ?case by (cases "promiseAll rest") auto
qed

subsection \<open>Build properties\<close>

text \<open>
  Claim C9. For every target key the build properties have \<open>os = "Linux"\<close>,
  \<open>build_type = "Debug"\<close>, \<open>stdver = ""\<close> and \<open>flagcollection = ""\<close>, whatever the key; the
  attribute \<open>compiler.version\<close> holds the compiler's id; and all eight attributes are
  present, each with a string value: the object has exactly the eight properties below.
\<close>

theorem getConanBuildProperties_attributes:
  "properties (getConanBuildProperties this key) =
     [(''os'', ''Linux''),
      (''build_type'', ''Debug''),
      (''compiler'', compilerTypeOrGCC this),
      (''compiler.version'', compiler_id this),
      (''compiler.libcxx'', getLibcxx this key),
      (''arch'', getTarget this key),
      (''stdver'', ''''),
      (''flagcollection'', '''')]"
  by (simp add: properties_def getConanBuildProperties_def)

subsection \<open>Matching\<close>

text \<open>
  Claim C2, as stated, fails: a candidate whose \<open>compiler\<close> setting is \<open>"cshared"\<close> does
  not match on the attribute \<open>compiler.version\<close> unless its own \<open>compiler.version\<close>
  setting is \<open>"cshared"\<close> too (or equals the requested version). Here all attributes but
  \<open>compiler\<close> and \<open>compiler.version\<close> agree, the candidate's \<open>compiler\<close> is the sentinel,
  and the candidate is not selected.
\<close>

theorem cshared_compiler_version_counterexample:
  "settings sharedCompilerOnly ''compiler'' = Some ''cshared'' \<and>
   settings sharedCompilerOnly ''os'' = Some (os gcc11) \<and>
   settings sharedCompilerOnly ''build_type'' = Some (build_type gcc11) \<and>
   settings sharedCompilerOnly ''compiler.libcxx'' = Some (compiler_libcxx gcc11) \<and>
   settings sharedCompilerOnly ''arch'' = Some (arch gcc11) \<and>
   settings sharedCompilerOnly ''stdver'' = Some (stdver gcc11) \<and>
   settings sharedCompilerOnly ''flagcollection'' = Some (flagcollection gcc11) \<and>
   \<not> propertyMatches sharedCompilerOnly (''compiler.version'', compiler_version gcc11) \<and>
   findMatchingHash gcc11 [(''abc123'', sharedCompilerOnly)] = None"
  by (simp add: findMatchingHash_def buildMatches_def properties_def propertyMatches_def
      gcc11_def sharedCompilerOnly_def)

text \<open>
  Claim C2, amended. A candidate matches the build properties exactly when: the attributes
  \<open>compiler\<close> and \<open>compiler.version\<close> each match if the candidate's setting of that same
  name is \<open>"cshared"\<close> or equals the requested value; the attribute \<open>compiler.libcxx\<close>
  matches if the candidate's \<open>compiler\<close> setting is \<open>"cshared"\<close> or its \<open>compiler.libcxx\<close>
  setting equals the requested value; and every other attribute matches only if the
  candidate's setting of that name is present and equal to the requested value.
\<close>

theorem buildMatches_rule:
  "propertyMatches c (key, val) =
     (settings c key = Some val \<or>
      (key = ''compiler'' \<or> key = ''compiler.version'') \<and> settings c key = Some ''cshared'' \<or>
      key = ''compiler.libcxx'' \<and> settings c ''compiler'' = Some ''cshared'')
   \<and> buildMatches d c =
     (settings c ''os'' = Some (os d) \<and>
      settings c ''build_type'' = Some (build_type d) \<and>
      (settings c ''compiler'' = Some ''cshared'' \<or> settings c ''compiler'' = Some (compiler d)) \<and>
      (settings c ''compiler.version'' = Some ''cshared'' \<or>
         settings c ''compiler.version'' = Some (compiler_version d)) \<and>
      (settings c ''compiler'' = Some ''cshared'' \<or>
         settings c ''compiler.libcxx'' = Some (compiler_libcxx d)) \<and>
      settings c ''arch'' = Some (arch d) \<and>
      settings c ''stdver'' = Some (stdver d) \<and>
      settings c ''flagcollection'' = Some (flagcollection d))
   \<and> findMatchingHash d bs = map_option fst (find (\<lambda>hc. buildMatches d (snd hc)) bs)"
proof (intro conjI)
  show "propertyMatches c (key, val) =
     (settings c key = Some val \<or>
      (key = ''compiler'' \<or> key = ''compiler.version'') \<and> settings c key = Some ''cshared'' \<or>
      key = ''compiler.libcxx'' \<and> settings c ''compiler'' = Some ''cshared'')"
    by (auto simp add: propertyMatches_def)
  show "buildMatches d c =
     (settings c ''os'' = Some (os d) \<and>
      settings c ''build_type'' = Some (build_type d) \<and>
      (settings c ''compiler'' = Some ''cshared'' \<or> settings c ''compiler'' = Some (compiler d)) \<and>
      (settings c ''compiler.version'' = Some ''cshared'' \<or>
         settings c ''compiler.version'' = Some (compiler_version d)) \<and>
      (settings c ''compiler'' = Some ''cshared'' \<or>
         settings c ''compiler.libcxx'' = Some (compiler_libcxx d)) \<and>
      settings c ''arch'' = Some (arch d) \<and>
      settings c ''stdver'' = Some (stdver d) \<and>
      settings c ''flagcollection'' = Some (flagcollection d))"
    by (rule buildMatches_cases)
  show "findMatchingHash d bs = map_option fst (find (\<lambda>hc. buildMatches d (snd hc)) bs)"
    by (simp add: findMatchingHash_def findKey_find)
qed

text \<open>
  Claim C3, as stated, fails in its last part: a candidate whose settings equal the build
  properties attribute for attribute is not the one returned when an earlier candidate
  matches as well. Here the compiler-agnostic build comes first and its hash is returned.
\<close>

theorem exact_candidate_not_returned_counterexample:
  "settingsEqual gcc11 exactBuild \<and>
   findMatchingHash gcc11 [(''0ff1ce'', sharedBuild), (''abc123'', exactBuild)] = Some ''0ff1ce'' \<and>
   findMatchingHash gcc11 [(''0ff1ce'', sharedBuild), (''abc123'', exactBuild)] \<noteq> Some ''abc123''"
  by (simp add: settingsEqual_def findMatchingHash_def buildMatches_def properties_def
      propertyMatches_def gcc11_def sharedBuild_def exactBuild_def)

text \<open>
  Claim C3, amended. \<open>findMatchingHash\<close> is a total function of its two arguments (it
  reads and writes no state) that returns the hash of the first candidate, in iteration
  order, that satisfies the matching rule for every attribute, and \<open>None\<close> when the
  candidates are empty or none satisfies the rule. A candidate whose settings equal the
  build properties attribute for attribute satisfies the rule, so a hash is returned
  whenever such a candidate is present; it is that candidate's hash when no earlier
  candidate satisfies the rule.
\<close>

theorem findMatchingHash_first_match:
  "findMatchingHash d [] = None
   \<and> (list_all (\<lambda>hc. \<not> buildMatches d (snd hc)) bs \<longrightarrow> findMatchingHash d bs = None)
   \<and> (list_all (\<lambda>hc. \<not> buildMatches d (snd hc)) pre \<and> buildMatches d c \<longrightarrow>
        findMatchingHash d (pre @ (h, c) # post) = Some h)
   \<and> (settingsEqual d c \<longrightarrow> buildMatches d c)
   \<and> (settingsEqual d c \<longrightarrow> findMatchingHash d (pre @ (h, c) # post) \<noteq> None)
   \<and> (list_all (\<lambda>hc. \<not> buildMatches d (snd hc)) pre \<and> settingsEqual d c \<longrightarrow>
        findMatchingHash d (pre @ (h, c) # post) = Some h)"
proof (intro conjI impI)
  show "findMatchingHash d [] = None"
    by (simp add: findMatchingHash_def)
  show "findMatchingHash d bs = None" if "list_all (\<lambda>hc. \<not> buildMatches d (snd hc)) bs"
    using that by (simp add: findMatchingHash_def findKey_none)
  show "findMatchingHash d (pre @ (h, c) # post) = Some h"
    if "list_all (\<lambda>hc. \<not> buildMatches d (snd hc)) pre \<and> buildMatches d c"
    using that by (simp add: findMatchingHash_def findKey_append findKey_none)
  show "buildMatches d c" if "settingsEqual d c"
    using that by (rule settingsEqual_matches)
  show "findMatchingHash d (pre @ (h, c) # post) \<noteq> None" if "settingsEqual d c"
    using settingsEqual_matches [OF that]
    by (simp add: findMatchingHash_def findKey_append split: option.splits)
  show "findMatchingHash d (pre @ (h, c) # post) = Some h"
    if "list_all (\<lambda>hc. \<not> buildMatches d (snd hc)) pre \<and> settingsEqual d c"
    using that settingsEqual_matches [of d c]
    by (simp add: findMatchingHash_def findKey_append findKey_none)
qed

theorem findMatchingHash_first_match_witness:
  "findMatchingHash gcc11 [] = None
   \<and> list_all (\<lambda>hc. \<not> buildMatches gcc11 (snd hc)) [(''a53'', armBuild)]
   \<and> findMatchingHash gcc11 [(''a53'', armBuild)] = None
   \<and> settingsEqual gcc11 exactBuild
   \<and> buildMatches gcc11 exactBuild
   \<and> findMatchingHash gcc11 ([(''a53'', armBuild)] @ (''abc123'', exactBuild) # [(''0ff1ce'', sharedBuild)])
       = Some ''abc123''"
proof -
  have no: "list_all (\<lambda>hc. \<not> buildMatches gcc11 (snd hc)) [(''a53'', armBuild)]"
    by (simp add: buildMatches_def properties_def propertyMatches_def gcc11_def armBuild_def)
  have eq: "settingsEqual gcc11 exactBuild"
    by (simp add: settingsEqual_def properties_def gcc11_def exactBuild_def)
  show ?thesis
    using no eq
      findMatchingHash_first_match [of gcc11 "[(''a53'', armBuild)]" "[(''a53'', armBuild)]"
        exactBuild "''abc123''" "[(''0ff1ce'', sharedBuild)]"]
    by simp
qed

subsection \<open>Destination paths and extraction\<close>

text \<open>
  An entry whose resolved destination directory does not start with the download path is
  skipped: nothing is written, one line is logged, and the next entry is handled.
\<close>

lemma onEntry_skips:
  assumes "\<not> startsWith (path_resolve (cwd fs)
      (path_dirname (getDestinationFilepath this downloadPath (header_name entry) libId)))
      downloadPath"
  shows "onEntry this env libId version' downloadPath entry fs =
      (None, fs, [Log Error (ZipSlip libId version')])"
    and "fst (snd (extractEntries this env libId version' downloadPath (entry # entries) fs)) =
      fst (snd (extractEntries this env libId version' downloadPath entries fs))"
  using assms by (simp_all add: onEntry_def Let_def split: prod.splits option.splits)

text \<open>
  The hostile entry \<open>../../evil\<close> between the two entries of the end-to-end scenario
  is skipped, and the two entries are extracted.
\<close>

lemma entry_above_the_root_is_skipped:
  "extractEntries gccSetup fixtureServer ''mylib'' ''2.1'' ''/tmp/build''
     [hd fixtureArchive,
      \<lparr>header_name = ''../../evil'', header_size = 1, stream = Ends ''!''\<rparr>,
      last fixtureArchive] emptyDisk =
   (None,
    \<lparr>cwd = ''/home/ce'',
      directories = [''/tmp'', ''/tmp/build'', ''/tmp/build/mylib'', ''/tmp/build/mylib/lib'',
        ''/tmp/build/mylib/include''],
      files = [(''/tmp/build/mylib/lib/libfoo.a'', ''!<ar''),
               (''/tmp/build/mylib/include/foo.h'', ''int f;'')]\<rparr>,
    [Log Error (ZipSlip ''mylib'' ''2.1'')])"
  by (simp add: fixtureArchive_def fixtureServer_def emptyDisk_def evaluate_entry evaluate_paths
      evaluate_instances)

text \<open>
  What the check does guarantee: the handler leaves the working directory alone, and every
  file that exists after an entry existed before or has a directory whose resolved path
  starts with the download path, as a string.
\<close>

lemma onEntry_writes_checked:
  assumes "onEntry this env libId version' downloadPath entry fs = (result, fs1, events)"
  shows "cwd fs1 = cwd fs"
    and "list_all (\<lambda>p. p \<in> set (map fst (files fs)) \<or>
           startsWith (path_resolve (cwd fs) (path_dirname p)) downloadPath) (map fst (files fs1))"
  using assms
  by (auto simp add: onEntry_def mkdirp_def createWriteStream_def writeFile_def Let_def
      list_all_iff split: if_splits sum.splits option.splits readable.splits)

lemma extractEntries_writes_checked:
  assumes "extractEntries this env libId version' downloadPath entries fs = (result, fs1, events)"
  shows "cwd fs1 = cwd fs \<and>
         list_all (\<lambda>p. p \<in> set (map fst (files fs)) \<or>
           startsWith (path_resolve (cwd fs) (path_dirname p)) downloadPath) (map fst (files fs1))"
  using assms
proof (induction entries arbitrary: fs result fs1 events)
  case Nil
  then show ?case by (simp add: list_all_iff)
next
  case (Cons entry entries)
  obtain r fs2 ev where one: "onEntry this env libId version' downloadPath entry fs = (r, fs2, ev)"
    by (cases "onEntry this env libId version' downloadPath entry fs") auto
  note first = onEntry_writes_checked [OF one]
  show ?case
  proof (cases r)
    case (Some error)
    with Cons.prems one have "fs1 = fs2" by simp
    with first show ?thesis by simp
  next
    case None
    obtain r' fs3 ev' where more:
      "extractEntries this env libId version' downloadPath entries fs2 = (r', fs3, ev')"
      by (cases "extractEntries this env libId version' downloadPath entries fs2") auto
    with Cons.prems one None have "fs1 = fs3" by simp
    have later: "cwd fs3 = cwd fs2"
      and kept: "\<forall>p \<in> fst ` set (files fs3). p \<in> fst ` set (files fs2) \<or>
          startsWith (path_resolve (cwd fs2) (path_dirname p)) downloadPath"
      using Cons.IH [OF more] by (simp_all add: list_all_iff)
    have earlier: "cwd fs2 = cwd fs"
      and made: "\<forall>p \<in> fst ` set (files fs2). p \<in> fst ` set (files fs) \<or>
          startsWith (path_resolve (cwd fs) (path_dirname p)) downloadPath"
      using first by (simp_all add: list_all_iff)
    from kept made earlier
    have "\<forall>p \<in> fst ` set (files fs3). p \<in> fst ` set (files fs) \<or>
        startsWith (path_resolve (cwd fs) (path_dirname p)) downloadPath"
      by metis
    with later earlier \<open>fs1 = fs3\<close> show ?thesis
      by (simp add: list_all_iff)
  qed
qed

text \<open>
  An entry that passes the check, whose directory is created and whose file opens, is
  stored with the bytes of its stream.
\<close>

lemma onEntry_stores:
  assumes flat: "\<not> extractAllToRoot this"
    and path: "filepath = getDestinationFilepath this downloadPath (header_name entry) libId"
    and check: "startsWith (path_resolve (cwd fs) (path_dirname filepath)) downloadPath"
    and made: "mkdirp env (path_dirname filepath) fs = Inr fs1"
    and opened: "createWriteStream env filepath fs1 = Inr fs2"
    and bytes: "stream entry = Ends bytes" "header_size entry = length bytes"
  shows "onEntry this env libId version' downloadPath entry fs =
      (None, writeFile filepath bytes fs1, [])"
proof -
  have fs2: "fs2 = writeFile filepath [] fs1"
    using opened by (rule createWriteStream_opens)
  have again: "writeFile filepath bytes fs2 = writeFile filepath bytes fs1"
    by (simp add: fs2 writeFile_def)
  show ?thesis
  proof (cases "header_size entry = 0")
    case True
    with bytes have "bytes = []" by simp
    with True flat check made opened show ?thesis
      by (simp add: onEntry_def Let_def path [symmetric] fs2)
  next
    case False
    with flat check made opened bytes show ?thesis
      by (simp add: onEntry_def Let_def path [symmetric] again)
  qed
qed

text \<open>
  Claim C1 fails on the code. The check compares strings, not paths: the destination
  \<open>/tmp/dl\<close> is a prefix of the sibling directory \<open>/tmp/dl-evil\<close>. For library \<open>lib\<close>
  the entry \<open>../../dl-evil/x\<close> has the destination \<open>/tmp/dl-evil/x\<close>, whose directory
  passes the check; the download succeeds, nothing is logged, and the file is written
  outside the directory \<open>/tmp/dl\<close>.
\<close>

theorem zip_slip_into_sibling_directory:
  "getDestinationFilepath gccSetup ''/tmp/dl'' ''../../dl-evil/x'' ''lib'' = ''/tmp/dl-evil/x''
   \<and> path_resolve (cwd emptyDisk) (path_dirname ''/tmp/dl-evil/x'') = ''/tmp/dl-evil''
   \<and> \<not> below ''/tmp/dl'' ''/tmp/dl-evil''
   \<and> \<not> below ''/tmp/dl'' ''/tmp/dl-evil/x''
   \<and> downloadAndExtractPackage gccSetup siblingServer ''lib'' ''1.0'' ''/tmp/dl''
         ''https://conan.example/lib.tgz'' emptyDisk =
       (Inr \<lparr>step = ''Download of lib 1.0'', packageUrl = ''https://conan.example/lib.tgz'',
             time = 42\<rparr>,
        \<lparr>cwd = ''/home/ce'', directories = [''/tmp'', ''/tmp/dl-evil''],
          files = [(''/tmp/dl-evil/x'', ''!'')]\<rparr>,
        [Fetch (Package ''https://conan.example/lib.tgz'')])"
proof (intro conjI)
  show "getDestinationFilepath gccSetup ''/tmp/dl'' ''../../dl-evil/x'' ''lib'' = ''/tmp/dl-evil/x''"
    by (simp add: evaluate_paths evaluate_instances)
  show "path_resolve (cwd emptyDisk) (path_dirname ''/tmp/dl-evil/x'') = ''/tmp/dl-evil''"
    by (simp add: evaluate_paths emptyDisk_def)
  show "\<not> below ''/tmp/dl'' ''/tmp/dl-evil''"
    by (simp add: below_def)
  show "\<not> below ''/tmp/dl'' ''/tmp/dl-evil/x''"
    by (simp add: below_def)
  show "downloadAndExtractPackage gccSetup siblingServer ''lib'' ''1.0'' ''/tmp/dl''
         ''https://conan.example/lib.tgz'' emptyDisk =
       (Inr \<lparr>step = ''Download of lib 1.0'', packageUrl = ''https://conan.example/lib.tgz'',
             time = 42\<rparr>,
        \<lparr>cwd = ''/home/ce'', directories = [''/tmp'', ''/tmp/dl-evil''],
          files = [(''/tmp/dl-evil/x'', ''!'')]\<rparr>,
        [Fetch (Package ''https://conan.example/lib.tgz'')])"
    by (simp add: downloadAndExtractPackage_def bigint_div_def siblingServer_def fixtureServer_def
        siblingArchive_def emptyDisk_def evaluate_entry evaluate_paths evaluate_instances)
qed

text \<open>
  Claim C7, as stated, fails in its scenario: the check compares the resolved, absolute
  directory of an entry with the download path as it was passed. Into the relative root
  \<open>build\<close>, and into the root \<open>/tmp/./build\<close>, both entries of the archive are skipped
  as zip-slip and no file is extracted. Into \<open>/tmp/build\<close> on a disk that does not let
  the directory be created, the extraction is rejected and no file is extracted.
\<close>

theorem fixture_not_extracted_counterexample:
  "extractEntries gccSetup fixtureServer ''mylib'' ''2.1'' ''build'' fixtureArchive emptyDisk =
     (None, emptyDisk, [Log Error (ZipSlip ''mylib'' ''2.1''), Log Error (ZipSlip ''mylib'' ''2.1'')])
   \<and> extractEntries gccSetup fixtureServer ''mylib'' ''2.1'' ''/tmp/./build'' fixtureArchive
       emptyDisk =
     (None, emptyDisk, [Log Error (ZipSlip ''mylib'' ''2.1''), Log Error (ZipSlip ''mylib'' ''2.1'')])
   \<and> extractEntries gccSetup readOnlyDisk ''mylib'' ''2.1'' ''/tmp/build'' fixtureArchive emptyDisk =
     (Some (FsError ''EACCES''), emptyDisk, [Log Error (EntryHandling (FsError ''EACCES''))])"
  by (simp add: fixtureArchive_def fixtureServer_def readOnlyDisk_def emptyDisk_def evaluate_entry
      evaluate_paths evaluate_instances)

text \<open>
  Claim C7, amended. \<open>getDestinationFilepath\<close> joins the download path with the base name
  of the entry's path when \<open>extractAllToRoot\<close> is set, and with the library id and the
  entry's path otherwise. Let the destination root be canonical (an absolute path other
  than \<open>/\<close> that normalisation leaves as it is), let extraction not flatten, and let the
  operating system create the two directories and open the two files (it refuses none of
  them, and neither file path is a directory). Then the archive with the entries
  \<open>include/foo.h\<close> and \<open>lib/libfoo.a\<close> of library \<open>mylib\<close> is extracted without error
  and without an unhandled failure, and afterwards the files
  \<open>root/mylib/include/foo.h\<close> and \<open>root/mylib/lib/libfoo.a\<close> hold the entries' bytes.
\<close>

theorem getDestinationFilepath_layout:
  "getDestinationFilepath this downloadPath zippedPath libId =
     (if extractAllToRoot this then path_join [downloadPath, path_basename zippedPath]
      else path_join [downloadPath, libId, zippedPath])
   \<and> (canonical root \<and> \<not> extractAllToRoot this
       \<and> mkdir_refused env (root @ ''/mylib/include'') = None
       \<and> mkdir_refused env (root @ ''/mylib/lib'') = None
       \<and> open_refused env (root @ ''/mylib/include/foo.h'') = None
       \<and> open_refused env (root @ ''/mylib/lib/libfoo.a'') = None
       \<and> root @ ''/mylib/include/foo.h'' \<notin> set (directories fs)
       \<and> root @ ''/mylib/lib/libfoo.a'' \<notin> set (directories fs) \<longrightarrow>
        fst (extractEntries this env ''mylib'' version' root
          [\<lparr>header_name = ''include/foo.h'', header_size = length h, stream = Ends h\<rparr>,
           \<lparr>header_name = ''lib/libfoo.a'', header_size = length a, stream = Ends a\<rparr>] fs) = None
        \<and> snd (snd (extractEntries this env ''mylib'' version' root
          [\<lparr>header_name = ''include/foo.h'', header_size = length h, stream = Ends h\<rparr>,
           \<lparr>header_name = ''lib/libfoo.a'', header_size = length a, stream = Ends a\<rparr>] fs)) = []
        \<and> map_of (files (fst (snd (extractEntries this env ''mylib'' version' root
          [\<lparr>header_name = ''include/foo.h'', header_size = length h, stream = Ends h\<rparr>,
           \<lparr>header_name = ''lib/libfoo.a'', header_size = length a, stream = Ends a\<rparr>] fs))))
            (root @ ''/mylib/include/foo.h'') = Some h
        \<and> map_of (files (fst (snd (extractEntries this env ''mylib'' version' root
          [\<lparr>header_name = ''include/foo.h'', header_size = length h, stream = Ends h\<rparr>,
           \<lparr>header_name = ''lib/libfoo.a'', header_size = length a, stream = Ends a\<rparr>] fs))))
            (root @ ''/mylib/lib/libfoo.a'') = Some a)"
proof (intro conjI impI)
  show "getDestinationFilepath this downloadPath zippedPath libId =
     (if extractAllToRoot this then path_join [downloadPath, path_basename zippedPath]
      else path_join [downloadPath, libId, zippedPath])"
    by (simp add: getDestinationFilepath_def)
next
  let ?e1 = "\<lparr>header_name = ''include/foo.h'', header_size = length h, stream = Ends h\<rparr>"
  let ?e2 = "\<lparr>header_name = ''lib/libfoo.a'', header_size = length a, stream = Ends a\<rparr>"
  let ?f1 = "root @ ''/mylib/include/foo.h''" and ?d1 = "root @ ''/mylib/include''"
  let ?f2 = "root @ ''/mylib/lib/libfoo.a''" and ?d2 = "root @ ''/mylib/lib''"
  assume fixture: "canonical root \<and> \<not> extractAllToRoot this
       \<and> mkdir_refused env (root @ ''/mylib/include'') = None
       \<and> mkdir_refused env (root @ ''/mylib/lib'') = None
       \<and> open_refused env (root @ ''/mylib/include/foo.h'') = None
       \<and> open_refused env (root @ ''/mylib/lib/libfoo.a'') = None
       \<and> root @ ''/mylib/include/foo.h'' \<notin> set (directories fs)
       \<and> root @ ''/mylib/lib/libfoo.a'' \<notin> set (directories fs)"
  then have root: "canonical root" and flat: "\<not> extractAllToRoot this"
    by simp_all
  note paths = fixture_paths [OF root]
  have f1: "?f1 = getDestinationFilepath this root (header_name ?e1) ''mylib''"
    and f2: "?f2 = getDestinationFilepath this root (header_name ?e2) ''mylib''"
    using flat by (simp_all add: getDestinationFilepath_def paths)
  have check1: "startsWith (path_resolve (cwd fs) (path_dirname ?f1)) root"
    by (simp add: paths startsWith_append)
  obtain fs1 where made1: "mkdirp env ?d1 fs = Inr fs1"
    using fixture mkdirp_accepted [of env ?d1 fs] by auto
  have short1: "?f1 \<notin> set (parents ?d1)" "?f2 \<notin> set (parents ?d1)"
    using parents_length [of ?f1 ?d1] parents_length [of ?f2 ?d1] by auto
  have dirs1: "?f1 \<notin> set (directories fs1)" "?f2 \<notin> set (directories fs1)"
    using fixture short1 by (simp_all add: mkdirp_creates(1) [OF made1])
  have opened1: "createWriteStream env ?f1 fs1 = Inr (writeFile ?f1 [] fs1)"
    using fixture dirs1 mkdirp_creates(2) [OF made1]
    by (intro createWriteStream_accepted) (simp_all add: paths)
  have one: "onEntry this env ''mylib'' version' root ?e1 fs = (None, writeFile ?f1 h fs1, [])"
    using onEntry_stores [OF flat f1 check1 _ opened1, of h version'] made1
    by (simp add: paths)
  let ?fs2 = "writeFile ?f1 h fs1"
  have cwd2: "cwd ?fs2 = cwd fs" and dirs2: "directories ?fs2 = directories fs1"
    by (simp_all add: writeFile_def mkdirp_creates(4) [OF made1])
  have check2: "startsWith (path_resolve (cwd ?fs2) (path_dirname ?f2)) root"
    by (simp add: paths startsWith_append)
  obtain fs3 where made2: "mkdirp env ?d2 ?fs2 = Inr fs3"
    using fixture mkdirp_accepted [of env ?d2 ?fs2] by auto
  have short2: "?f2 \<notin> set (parents ?d2)"
    using parents_length [of ?f2 ?d2] by auto
  have dirs3: "?f2 \<notin> set (directories fs3)"
    using dirs1 short2 by (simp add: mkdirp_creates(1) [OF made2] dirs2)
  have opened2: "createWriteStream env ?f2 fs3 = Inr (writeFile ?f2 [] fs3)"
    using fixture dirs3 mkdirp_creates(2) [OF made2]
    by (intro createWriteStream_accepted) (simp_all add: paths)
  have two: "onEntry this env ''mylib'' version' root ?e2 ?fs2 = (None, writeFile ?f2 a fs3, [])"
    using onEntry_stores [OF flat f2 check2 _ opened2, of a version'] made2
    by (simp add: paths)
  have all: "extractEntries this env ''mylib'' version' root [?e1, ?e2] fs =
      (None, writeFile ?f2 a fs3, [])"
    by (simp add: one two)
  have kept: "files fs3 = files ?fs2"
    by (rule mkdirp_creates(3) [OF made2])
  show "fst (extractEntries this env ''mylib'' version' root [?e1, ?e2] fs) = None"
    unfolding all by simp
  show "snd (snd (extractEntries this env ''mylib'' version' root [?e1, ?e2] fs)) = []"
    unfolding all by simp
  show "map_of (files (fst (snd (extractEntries this env ''mylib'' version' root [?e1, ?e2] fs))))
      ?f1 = Some h"
    unfolding all by (simp add: kept writeFile_def)
  show "map_of (files (fst (snd (extractEntries this env ''mylib'' version' root [?e1, ?e2] fs))))
      ?f2 = Some a"
    unfolding all by (simp add: writeFile_def)
qed

theorem getDestinationFilepath_layout_witness:
  "canonical ''/tmp/build'' \<and> \<not> extractAllToRoot gccSetup
   \<and> extractEntries gccSetup fixtureServer ''mylib'' ''2.1'' ''/tmp/build'' fixtureArchive
       emptyDisk =
     (None,
      \<lparr>cwd = ''/home/ce'',
        directories = [''/tmp'', ''/tmp/build'', ''/tmp/build/mylib'', ''/tmp/build/mylib/lib'',
          ''/tmp/build/mylib/include''],
        files = [(''/tmp/build/mylib/lib/libfoo.a'', ''!<ar''),
                 (''/tmp/build/mylib/include/foo.h'', ''int f;'')]\<rparr>,
      [])
   \<and> map_of (files (fst (snd (extractEntries gccSetup fixtureServer ''mylib'' ''2.1''
        ''/tmp/build'' fixtureArchive emptyDisk)))) ''/tmp/build/mylib/include/foo.h'' =
       Some ''int f;''
   \<and> map_of (files (fst (snd (extractEntries gccSetup fixtureServer ''mylib'' ''2.1''
        ''/tmp/build'' fixtureArchive emptyDisk)))) ''/tmp/build/mylib/lib/libfoo.a'' =
       Some ''!<ar''"
proof -
  have fixture: "canonical ''/tmp/build'' \<and> \<not> extractAllToRoot gccSetup
       \<and> mkdir_refused fixtureServer (''/tmp/build'' @ ''/mylib/include'') = None
       \<and> mkdir_refused fixtureServer (''/tmp/build'' @ ''/mylib/lib'') = None
       \<and> open_refused fixtureServer (''/tmp/build'' @ ''/mylib/include/foo.h'') = None
       \<and> open_refused fixtureServer (''/tmp/build'' @ ''/mylib/lib/libfoo.a'') = None
       \<and> ''/tmp/build'' @ ''/mylib/include/foo.h'' \<notin> set (directories emptyDisk)
       \<and> ''/tmp/build'' @ ''/mylib/lib/libfoo.a'' \<notin> set (directories emptyDisk)"
    by (simp add: canonical_def normalizeString_def normalizeSegment_def evaluate_instances
        fixtureServer_def emptyDisk_def)
  have entries: "fixtureArchive =
      [\<lparr>header_name = ''include/foo.h'', header_size = length ''int f;'', stream = Ends ''int f;''\<rparr>,
       \<lparr>header_name = ''lib/libfoo.a'', header_size = length ''!<ar'', stream = Ends ''!<ar''\<rparr>]"
    by (simp add: fixtureArchive_def)
  have run: "extractEntries gccSetup fixtureServer ''mylib'' ''2.1'' ''/tmp/build'' fixtureArchive
       emptyDisk =
     (None,
      \<lparr>cwd = ''/home/ce'',
        directories = [''/tmp'', ''/tmp/build'', ''/tmp/build/mylib'', ''/tmp/build/mylib/lib'',
          ''/tmp/build/mylib/include''],
        files = [(''/tmp/build/mylib/lib/libfoo.a'', ''!<ar''),
                 (''/tmp/build/mylib/include/foo.h'', ''int f;'')]\<rparr>,
      [])"
    by (simp add: fixtureArchive_def fixtureServer_def emptyDisk_def evaluate_entry evaluate_paths
        evaluate_instances)
  have found: "map_of (files (fst (snd (extractEntries gccSetup fixtureServer ''mylib'' ''2.1''
        ''/tmp/build'' fixtureArchive emptyDisk)))) ''/tmp/build/mylib/include/foo.h'' =
       Some ''int f;''
     \<and> map_of (files (fst (snd (extractEntries gccSetup fixtureServer ''mylib'' ''2.1''
        ''/tmp/build'' fixtureArchive emptyDisk)))) ''/tmp/build/mylib/lib/libfoo.a'' =
       Some ''!<ar''"
    using fixture
      getDestinationFilepath_layout [of gccSetup "''/tmp/build''" "''include/foo.h''" "''mylib''"
        "''/tmp/build''" fixtureServer emptyDisk "''2.1''" "''int f;''" "''!<ar''"]
    unfolding entries by simp
  from fixture run found show ?thesis
    by simp
qed

text \<open>
  Claim C8, as stated, fails. The entry of a directory has size zero and a name that ends
  in \<open>/\<close>: its destination \<open>/tmp/dl/lib/include/\<close> passes the path check, but no file
  opens at a path that names a directory. The handler goes on to the next entry, no file is
  made, and the failure of the write stream is left unhandled. And an entry of size zero
  that passes the check is not completed when its directory cannot be created: on a
  read-only disk \<open>mkdirp\<close> throws and the extraction is rejected.
\<close>

theorem zero_size_entry_makes_no_file_counterexample:
  "header_size (hd directoryArchive) = 0
   \<and> getDestinationFilepath gccSetup ''/tmp/dl'' (header_name (hd directoryArchive)) ''lib''
       = ''/tmp/dl/lib/include/''
   \<and> startsWith (path_resolve (cwd emptyDisk) (path_dirname ''/tmp/dl/lib/include/'')) ''/tmp/dl''
   \<and> extractEntries gccSetup fixtureServer ''lib'' ''1.0'' ''/tmp/dl'' directoryArchive emptyDisk =
       (None,
        \<lparr>cwd = ''/home/ce'', directories = [''/tmp'', ''/tmp/dl'', ''/tmp/dl/lib''], files = []\<rparr>,
        [Unhandled (FsError ''EISDIR'')])
   \<and> startsWith (path_resolve (cwd emptyDisk) (path_dirname
         (getDestinationFilepath gccSetup ''/tmp/dl'' ''include/empty.h'' ''lib''))) ''/tmp/dl''
   \<and> onEntry gccSetup readOnlyDisk ''lib'' ''1.0'' ''/tmp/dl''
         \<lparr>header_name = ''include/empty.h'', header_size = 0, stream = Ends []\<rparr> emptyDisk =
       (Some (FsError ''EACCES''), emptyDisk, [Log Error (EntryHandling (FsError ''EACCES''))])"
proof (intro conjI)
  show "header_size (hd directoryArchive) = 0"
    by (simp add: directoryArchive_def)
  show "getDestinationFilepath gccSetup ''/tmp/dl'' (header_name (hd directoryArchive)) ''lib''
       = ''/tmp/dl/lib/include/''"
    by (simp add: directoryArchive_def evaluate_paths evaluate_instances)
  show "startsWith (path_resolve (cwd emptyDisk) (path_dirname ''/tmp/dl/lib/include/'')) ''/tmp/dl''"
    by (simp add: evaluate_paths emptyDisk_def)
  show "extractEntries gccSetup fixtureServer ''lib'' ''1.0'' ''/tmp/dl'' directoryArchive emptyDisk =
       (None,
        \<lparr>cwd = ''/home/ce'', directories = [''/tmp'', ''/tmp/dl'', ''/tmp/dl/lib''], files = []\<rparr>,
        [Unhandled (FsError ''EISDIR'')])"
    by (simp add: directoryArchive_def fixtureServer_def emptyDisk_def evaluate_entry
        evaluate_paths evaluate_instances)
  show "startsWith (path_resolve (cwd emptyDisk) (path_dirname
         (getDestinationFilepath gccSetup ''/tmp/dl'' ''include/empty.h'' ''lib''))) ''/tmp/dl''"
    by (simp add: evaluate_paths evaluate_instances emptyDisk_def)
  show "onEntry gccSetup readOnlyDisk ''lib'' ''1.0'' ''/tmp/dl''
         \<lparr>header_name = ''include/empty.h'', header_size = 0, stream = Ends []\<rparr> emptyDisk =
       (Some (FsError ''EACCES''), emptyDisk, [Log Error (EntryHandling (FsError ''EACCES''))])"
    by (simp add: readOnlyDisk_def fixtureServer_def emptyDisk_def evaluate_entry evaluate_paths
        evaluate_instances)
qed

text \<open>
  Claim C8, amended. For every entry of size zero whose destination passes the path
  check, whose destination directory \<open>mkdirp\<close> creates without error (when not
  flattening) and whose destination file opens for writing (the path names no directory,
  its directory exists and the operating system does not refuse): the handler completes
  without error and leaves no event behind, an empty file exists at the destination path
  afterwards, and the extraction goes on with the next entry.
\<close>

theorem zero_size_entry_creates_empty_file:
  assumes "header_size entry = 0"
    and "filepath = getDestinationFilepath this downloadPath (header_name entry) libId"
    and "startsWith (path_resolve (cwd fs) (path_dirname filepath)) downloadPath"
    and "(if \<not> extractAllToRoot this then mkdirp env (path_dirname filepath) fs else Inr fs) =
      Inr fs1"
    and "createWriteStream env filepath fs1 = Inr fs2"
  shows "onEntry this env libId version' downloadPath entry fs = (None, fs2, [])
         \<and> map_of (files fs2) filepath = Some []
         \<and> extractEntries this env libId version' downloadPath (entry # entries) fs =
           extractEntries this env libId version' downloadPath entries fs2"
proof -
  have handled: "onEntry this env libId version' downloadPath entry fs = (None, fs2, [])"
    using assms by (cases "extractAllToRoot this") (simp_all add: onEntry_def Let_def)
  have empty: "map_of (files fs2) filepath = Some []"
    using assms(5) by (rule createWriteStream_opens)
  have continues: "extractEntries this env libId version' downloadPath (entry # entries) fs =
      extractEntries this env libId version' downloadPath entries fs2"
    by (simp add: handled split: prod.splits)
  from handled empty continues show ?thesis by simp
qed

theorem zero_size_entry_creates_empty_file_witness:
  "onEntry gccSetup fixtureServer ''mylib'' ''2.1'' ''/tmp/build''
     \<lparr>header_name = ''include/empty.h'', header_size = 0, stream = Ends []\<rparr> emptyDisk =
     (None,
      \<lparr>cwd = ''/home/ce'',
        directories = [''/tmp'', ''/tmp/build'', ''/tmp/build/mylib'', ''/tmp/build/mylib/include''],
        files = [(''/tmp/build/mylib/include/empty.h'', [])]\<rparr>,
      [])
   \<and> extractEntries gccSetup fixtureServer ''mylib'' ''2.1'' ''/tmp/build''
       (\<lparr>header_name = ''include/empty.h'', header_size = 0, stream = Ends []\<rparr> # fixtureArchive)
       emptyDisk =
     extractEntries gccSetup fixtureServer ''mylib'' ''2.1'' ''/tmp/build'' fixtureArchive
       \<lparr>cwd = ''/home/ce'',
        directories = [''/tmp'', ''/tmp/build'', ''/tmp/build/mylib'', ''/tmp/build/mylib/include''],
        files = [(''/tmp/build/mylib/include/empty.h'', [])]\<rparr>"
proof -
  let ?entry = "\<lparr>header_name = ''include/empty.h'', header_size = 0, stream = Ends []\<rparr>"
  let ?fs1 = "\<lparr>cwd = ''/home/ce'',
      directories = [''/tmp'', ''/tmp/build'', ''/tmp/build/mylib'', ''/tmp/build/mylib/include''],
      files = []\<rparr>"
  let ?fs2 = "\<lparr>cwd = ''/home/ce'',
      directories = [''/tmp'', ''/tmp/build'', ''/tmp/build/mylib'', ''/tmp/build/mylib/include''],
      files = [(''/tmp/build/mylib/include/empty.h'', [])]\<rparr>"
  have size: "header_size ?entry = 0"
    by simp
  have path: "''/tmp/build/mylib/include/empty.h'' =
      getDestinationFilepath gccSetup ''/tmp/build'' (header_name ?entry) ''mylib''"
    by (simp add: evaluate_paths evaluate_instances)
  have check: "startsWith (path_resolve (cwd emptyDisk)
      (path_dirname ''/tmp/build/mylib/include/empty.h'')) ''/tmp/build''"
    by (simp add: evaluate_paths emptyDisk_def)
  have made: "(if \<not> extractAllToRoot gccSetup
      then mkdirp fixtureServer (path_dirname ''/tmp/build/mylib/include/empty.h'') emptyDisk
      else Inr emptyDisk) = Inr ?fs1"
    by (simp add: evaluate_instances path_dirname_def mkdirp_def parents_def fixtureServer_def
        emptyDisk_def)
  have opened: "createWriteStream fixtureServer ''/tmp/build/mylib/include/empty.h'' ?fs1 = Inr ?fs2"
    by (simp add: createWriteStream_def writeFile_def path_dirname_def fixtureServer_def)
  show ?thesis
    using zero_size_entry_creates_empty_file [OF size path check made opened,
        where version' = "''2.1''" and entries = fixtureArchive]
    by simp
qed

text \<open>
  Claim C10. The constructor sets \<open>extractAllToRoot\<close> to false. No method assigns to a
  field (in the embedding every method reads \<open>this\<close> and none returns an instance), so
  every extraction of an instance sees that value: the destination of an entry is
  \<open>path.join(downloadPath, libId, name)\<close>, and the handler either skips the entry, or
  fails in \<open>mkdirp\<close> without writing, or creates the write stream in the file system in
  which \<open>mkdirp\<close> has created the destination directory. A file opens only if its
  directory exists.
\<close>

theorem constructor_never_flattens:
  "extractAllToRoot (constructor super buildenvsetup) = False
   \<and> getDestinationFilepath (constructor super buildenvsetup) downloadPath zippedPath libId =
       path_join [downloadPath, libId, zippedPath]
   \<and> onEntry (constructor super buildenvsetup) env libId version' downloadPath entry fs =
       (let filepath = path_join [downloadPath, libId, header_name entry];
            dir = path_dirname filepath
        in if \<not> startsWith (path_resolve (cwd fs) dir) downloadPath
           then (None, fs, [Log Error (ZipSlip libId version')])
           else
             (case mkdirp env dir fs of
                Inl error \<Rightarrow> (Some error, fs, [Log Error (EntryHandling error)])
              | Inr fs1 \<Rightarrow>
                  (case createWriteStream env filepath fs1 of
                     Inl unopened \<Rightarrow>
                       if header_size entry = 0 then (None, fs1, [Unhandled unopened])
                       else
                         (case stream entry of
                            Ends bytes \<Rightarrow> (None, fs1, [Unhandled unopened])
                          | Fails bytes error \<Rightarrow>
                              (Some (StreamError error), fs1,
                               [Unhandled unopened,
                                Log Error (StreamHandling (StreamError error))]))
                   | Inr fs2 \<Rightarrow>
                       if header_size entry = 0 then (None, fs2, [])
                       else
                         (case stream entry of
                            Ends bytes \<Rightarrow> (None, writeFile filepath bytes fs2, [])
                          | Fails bytes error \<Rightarrow>
                              (Some (StreamError error), writeFile filepath bytes fs2,
                               [Log Error (StreamHandling (StreamError error))])))))
   \<and> (case mkdirp env dir fs of
         Inl error \<Rightarrow> True
       | Inr fs1 \<Rightarrow>
           dir \<in> set (directories fs1)
           \<and> (case createWriteStream env file fs1 of
                 Inl unopened \<Rightarrow> True
               | Inr fs2 \<Rightarrow>
                   path_dirname file \<in> set (directories fs1)
                   \<and> dir \<in> set (directories fs2)
                   \<and> dir \<in> set (directories (writeFile file content fs2))))"
proof (intro conjI)
  show "extractAllToRoot (constructor super buildenvsetup) = False"
    by (simp add: constructor_def)
  show "getDestinationFilepath (constructor super buildenvsetup) downloadPath zippedPath libId =
       path_join [downloadPath, libId, zippedPath]"
    by (simp add: getDestinationFilepath_def constructor_def)
  show "onEntry (constructor super buildenvsetup) env libId version' downloadPath entry fs =
       (let filepath = path_join [downloadPath, libId, header_name entry];
            dir = path_dirname filepath
        in if \<not> startsWith (path_resolve (cwd fs) dir) downloadPath
           then (None, fs, [Log Error (ZipSlip libId version')])
           else
             (case mkdirp env dir fs of
                Inl error \<Rightarrow> (Some error, fs, [Log Error (EntryHandling error)])
              | Inr fs1 \<Rightarrow>
                  (case createWriteStream env filepath fs1 of
                     Inl unopened \<Rightarrow>
                       if header_size entry = 0 then (None, fs1, [Unhandled unopened])
                       else
                         (case stream entry of
                            Ends bytes \<Rightarrow> (None, fs1, [Unhandled unopened])
                          | Fails bytes error \<Rightarrow>
                              (Some (StreamError error), fs1,
                               [Unhandled unopened,
                                Log Error (StreamHandling (StreamError error))]))
                   | Inr fs2 \<Rightarrow>
                       if header_size entry = 0 then (None, fs2, [])
                       else
                         (case stream entry of
                            Ends bytes \<Rightarrow> (None, writeFile filepath bytes fs2, [])
                          | Fails bytes error \<Rightarrow>
                              (Some (StreamError error), writeFile filepath bytes fs2,
                               [Log Error (StreamHandling (StreamError error))])))))"
    by (simp add: onEntry_def getDestinationFilepath_def constructor_def Let_def
        split: sum.splits)
  show "case mkdirp env dir fs of
         Inl error \<Rightarrow> True
       | Inr fs1 \<Rightarrow>
           dir \<in> set (directories fs1)
           \<and> (case createWriteStream env file fs1 of
                 Inl unopened \<Rightarrow> True
               | Inr fs2 \<Rightarrow>
                   path_dirname file \<in> set (directories fs1)
                   \<and> dir \<in> set (directories fs2)
                   \<and> dir \<in> set (directories (writeFile file content fs2)))"
  proof (cases "mkdirp env dir fs")
    case (Inl error)
    then show ?thesis by simp
  next
    case (Inr fs1)
    note made = mkdirp_creates(2) [OF Inr]
    show ?thesis
    proof (cases "createWriteStream env file fs1")
      case (Inl unopened)
      with Inr made show ?thesis by simp
    next
      case opened: (Inr fs2)
      from createWriteStream_opens(2,4) [OF opened] Inr made opened show ?thesis
        by (simp add: writeFile_def)
    qed
  qed
qed

theorem constructor_never_flattens_witness:
  "extractAllToRoot gccSetup = False
   \<and> getDestinationFilepath gccSetup ''/tmp/build'' ''include/foo.h'' ''mylib'' =
       ''/tmp/build/mylib/include/foo.h''
   \<and> mkdirp fixtureServer ''/tmp/build/mylib/include'' emptyDisk =
       Inr \<lparr>cwd = ''/home/ce'',
         directories = [''/tmp'', ''/tmp/build'', ''/tmp/build/mylib'', ''/tmp/build/mylib/include''],
         files = []\<rparr>
   \<and> onEntry gccSetup fixtureServer ''mylib'' ''2.1'' ''/tmp/build'' (hd fixtureArchive) emptyDisk =
       (None,
        \<lparr>cwd = ''/home/ce'',
          directories = [''/tmp'', ''/tmp/build'', ''/tmp/build/mylib'', ''/tmp/build/mylib/include''],
          files = [(''/tmp/build/mylib/include/foo.h'', ''int f;'')]\<rparr>,
        [])"
  using constructor_never_flattens [of gccBase "[''host'' \<mapsto> PString ''https://conan.example'']"
      "''/tmp/build''" "''include/foo.h''" "''mylib''" fixtureServer "''2.1''" "hd fixtureArchive"
      emptyDisk "''/tmp/build/mylib/include''" "''/tmp/build/mylib/include/foo.h''" "''int f;''"]
  by (simp add: gccSetup_def fixtureArchive_def fixtureServer_def emptyDisk_def path_join_def
      path_normalize_def normalizeString_def normalizeSegment_def path_resolve_def path_dirname_def
      mkdirp_def parents_def createWriteStream_def writeFile_def Let_def)

subsection \<open>Provisioning\<close>

text \<open>
  Claim C6. When no host is configured (the property \<open>host\<close> is unset, so that the
  constructor stores \<open>false\<close>, or it is otherwise falsy), or when \<open>onlyonstaticliblink\<close>
  is set and \<open>binary\<close> is false, \<open>setup\<close> fulfils with the empty list: no request is
  made, nothing is logged, and the file system is as before.
\<close>

theorem setup_returns_empty:
  assumes "\<not> truthy (host this) \<or> truthy (onlyonstaticliblink this) \<and> \<not> binary"
  shows "ceconan_setup this env key dirPath libraryDetails binary fs = (Inr [], fs, [])
         \<and> (buildenvsetup ''host'' = None \<longrightarrow> \<not> truthy (host (constructor super buildenvsetup)))"
  using assms by (auto simp add: ceconan_setup_def constructor_def props_def)

theorem setup_returns_empty_witness:
  "ceconan_setup hostlessSetup fixtureServer () ''/tmp/build'' requestedLibraries True emptyDisk =
     (Inr [], emptyDisk, [])
   \<and> ceconan_setup staticOnlySetup fixtureServer () ''/tmp/build'' requestedLibraries False
       emptyDisk = (Inr [], emptyDisk, [])
   \<and> \<not> truthy (host (constructor gccBase Map.empty))"
proof -
  have hostless: "\<not> truthy (host hostlessSetup) \<or>
      truthy (onlyonstaticliblink hostlessSetup) \<and> \<not> True"
    by (simp add: evaluate_instances)
  have static: "\<not> truthy (host staticOnlySetup) \<or>
      truthy (onlyonstaticliblink staticOnlySetup) \<and> \<not> False"
    by (simp add: evaluate_instances)
  show ?thesis
    using setup_returns_empty [OF hostless, of fixtureServer "()" "''/tmp/build''"
        requestedLibraries emptyDisk Map.empty gccBase]
      setup_returns_empty [OF static, of fixtureServer "()" "''/tmp/build''"
        requestedLibraries emptyDisk Map.empty gccBase]
    by simp
qed

text \<open>
  What the orchestrator does for a library whose search is rejected, or succeeds with no
  build that matches: the outcome of \<open>download\<close> and the file system it leaves are those
  of the request without that library, and a warning for the library is logged. The search
  itself leaves a failure unhandled exactly when the server answers 404 with a body that
  is not JSON.
\<close>

lemma unavailable_library_omitted_from_results:
  assumes needed: "packagedheaders details \<or> hasBinariesToLink this details"
    and name: "name = orElse (lookupname details) libId"
    and ver: "ver = orElse (lookupversion details) (version details)"
    and props: "buildProperties = getConanBuildProperties this key"
    and found: "found = fst (getAllPossibleBuilds env name ver)"
    and unavailable: "isl found \<or>
      (\<exists>builds. found = Inr builds \<and> findMatchingHash buildProperties builds = None)"
    and run: "run = download this env key dirPath (pre @ (libId, details) # post) fs"
    and others: "others = download this env key dirPath (pre @ post) fs"
  shows "fst run = fst others
         \<and> fst (snd run) = fst (snd others)
         \<and> Log Warn (if isl found then NotAvailable (name @ ''/'' @ ver)
              else NoBuildFound (name @ ''/'' @ ver) buildProperties) \<in> set (snd (snd run))
         \<and> (search env name ver = Response 404 json \<longrightarrow> found = Inl NotFound)
         \<and> (search env name ver = Rejected err \<longrightarrow> found = Inl (TransportError err))
         \<and> raisesUnhandled (snd (getAllPossibleBuilds env name ver)) =
             (search env name ver = Response 404 None)"
proof -
  let ?bp = "getConanBuildProperties this key"
  obtain A logA where A: "startSearches this env pre = (A, logA)"
    by (cases "startSearches this env pre")
  obtain B logB where B: "startSearches this env post = (B, logB)"
    by (cases "startSearches this env post")
  obtain log1 where found1: "getAllPossibleBuilds env name ver = (found, log1)"
    using found by (cases "getAllPossibleBuilds env name ver") simp
  define l where "l = \<lparr>lib_id = libId, lib_version = version details,
      lib_lookupname = lookupname details, lib_lookupversion = lookupversion details,
      possibleBuilds = (case found of Inl _ \<Rightarrow> None | Inr json \<Rightarrow> Some json)\<rparr>"
  have one: "startSearches this env ((libId, details) # post) = (l # B, log1 @ logB)"
    using needed found1 B by (simp add: l_def name ver Let_def)
  have full: "startSearches this env (pre @ (libId, details) # post) = (A @ l # B, logA @ log1 @ logB)"
    by (simp only: startSearches_append [of this env pre] A one fst_conv snd_conv)
  have rest: "startSearches this env (pre @ post) = (A @ B, logA @ logB)"
    by (simp only: startSearches_append [of this env pre] A B fst_conv snd_conv)
  obtain r1 fs1 e1 where dA: "dispatchDownloads this env ?bp dirPath A fs = (r1, fs1, e1)"
    by (cases "dispatchDownloads this env ?bp dirPath A fs") auto
  obtain r2 fs2 e2 where dB: "dispatchDownloads this env ?bp dirPath B fs1 = (r2, fs2, e2)"
    by (cases "dispatchDownloads this env ?bp dirPath B fs1") auto
  let ?warning = "Log Warn (if isl found then NotAvailable (name @ ''/'' @ ver)
      else NoBuildFound (name @ ''/'' @ ver) buildProperties)"
  have skipped: "dispatchDownloads this env ?bp dirPath (l # B) fs1 = (r2, fs2, ?warning # e2)"
    using unavailable dB
    by (cases found) (auto simp add: l_def name ver props Let_def)
  have dfull: "dispatchDownloads this env ?bp dirPath (A @ l # B) fs =
      (r1 @ r2, fs2, e1 @ ?warning # e2)"
    by (simp only: dispatchDownloads_append [of this env ?bp dirPath A] dA skipped prod.case)
  have drest: "dispatchDownloads this env ?bp dirPath (A @ B) fs = (r1 @ r2, fs2, e1 @ e2)"
    by (simp only: dispatchDownloads_append [of this env ?bp dirPath A] dA dB prod.case)
  have runs: "run = (promiseAll (r1 @ r2), fs2, (logA @ log1 @ logB) @ e1 @ ?warning # e2)"
    by (simp only: run download_def full Let_def prod.case dfull)
  have rests: "others = (promiseAll (r1 @ r2), fs2, (logA @ logB) @ e1 @ e2)"
    by (simp only: others download_def rest Let_def prod.case drest)
  have notFound: "search env name ver = Response 404 json \<longrightarrow> found = Inl NotFound"
    by (simp add: found getAllPossibleBuilds_def)
  have transport: "search env name ver = Rejected err \<longrightarrow> found = Inl (TransportError err)"
    by (simp add: found getAllPossibleBuilds_def)
  have unhandled: "raisesUnhandled (snd (getAllPossibleBuilds env name ver)) =
      (search env name ver = Response 404 None)"
    by (auto simp add: getAllPossibleBuilds_def raisesUnhandled_def
        split: response.splits option.splits)
  from runs rests notFound transport unhandled show ?thesis
    by simp
qed

text \<open>
  Claim C4 fails on the code. The server answers the search for \<open>nolib\<close> with the status
  404 and a body that is not JSON. \<open>getAllPossibleBuilds\<close> rejects, as the claim expects,
  and \<open>download\<close> logs the warning and goes on to \<open>mylib\<close>; but after \<open>reject\<close> the
  source has gone on to call \<open>response.json()\<close>, whose promise rejects with nothing to
  handle it. The run leaves an unhandled rejection behind, which ends the process by
  Node's default: it does not complete successfully.
\<close>

theorem not_found_with_unreadable_body_is_unhandled:
  "search plainTextServer ''nolib'' ''1.0'' = Response 404 None
   \<and> getAllPossibleBuilds plainTextServer ''nolib'' ''1.0'' =
       (Inl NotFound, [Fetch (Search ''nolib'' ''1.0''), Unhandled InvalidJson])
   \<and> snd (snd (download gccSetup plainTextServer () ''/tmp/build'' requestedLibraries emptyDisk)) =
       [Fetch (Search ''nolib'' ''1.0''), Unhandled InvalidJson,
        Fetch (Search ''mylib'' ''2.1''),
        Log Warn (NotAvailable ''nolib/1.0''),
        Log Debug (FoundHash ''abc123'' ''mylib/2.1''),
        Fetch (DownloadUrls ''mylib'' ''2.1'' ''abc123''),
        Fetch (Package ''https://conan.example/mylib.tgz'')]
   \<and> raisesUnhandled
       (snd (snd (download gccSetup plainTextServer () ''/tmp/build'' requestedLibraries emptyDisk)))"
proof -
  have answer: "search plainTextServer ''nolib'' ''1.0'' = Response 404 None"
    by (simp add: plainTextServer_def fixtureServer_def)
  have listing: "getAllPossibleBuilds plainTextServer ''nolib'' ''1.0'' =
      (Inl NotFound, [Fetch (Search ''nolib'' ''1.0''), Unhandled InvalidJson])"
    by (simp add: getAllPossibleBuilds_def answer)
  have trace: "snd (snd (download gccSetup plainTextServer () ''/tmp/build'' requestedLibraries
      emptyDisk)) =
       [Fetch (Search ''nolib'' ''1.0''), Unhandled InvalidJson,
        Fetch (Search ''mylib'' ''2.1''),
        Log Warn (NotAvailable ''nolib/1.0''),
        Log Debug (FoundHash ''abc123'' ''mylib/2.1''),
        Fetch (DownloadUrls ''mylib'' ''2.1'' ''abc123''),
        Fetch (Package ''https://conan.example/mylib.tgz'')]"
    by (simp add: download_def requestedLibraries_def getAllPossibleBuilds_def plainTextServer_def
        fixtureServer_def getConanBuildProperties_def findMatchingHash_def buildMatches_def
        properties_def propertyMatches_def exactBuild_def fetchPackage_def getPackageUrl_def
        downloadAndExtractPackage_def bigint_div_def fixtureArchive_def emptyDisk_def
        evaluate_entry evaluate_paths evaluate_instances)
  have unhandled: "raisesUnhandled
      (snd (snd (download gccSetup plainTextServer () ''/tmp/build'' requestedLibraries emptyDisk)))"
    unfolding trace by (simp add: raisesUnhandled_def)
  from answer listing trace unhandled show ?thesis
    by simp
qed

text \<open>
  With a 404 whose body is JSON the same request completes: the library is left out, the
  other library is provisioned, and nothing is left unhandled.
\<close>

lemma not_found_with_json_body_is_omitted:
  "download gccSetup fixtureServer () ''/tmp/build'' requestedLibraries emptyDisk =
     (Inr [\<lparr>step = ''Download of mylib 2.1'', packageUrl = ''https://conan.example/mylib.tgz'',
            time = 42\<rparr>],
      \<lparr>cwd = ''/home/ce'',
        directories = [''/tmp'', ''/tmp/build'', ''/tmp/build/mylib'', ''/tmp/build/mylib/lib'',
          ''/tmp/build/mylib/include''],
        files = [(''/tmp/build/mylib/lib/libfoo.a'', ''!<ar''),
                 (''/tmp/build/mylib/include/foo.h'', ''int f;'')]\<rparr>,
      [Fetch (Search ''nolib'' ''1.0''), Fetch (Search ''mylib'' ''2.1''),
       Log Warn (NotAvailable ''nolib/1.0''),
       Log Debug (FoundHash ''abc123'' ''mylib/2.1''),
       Fetch (DownloadUrls ''mylib'' ''2.1'' ''abc123''),
       Fetch (Package ''https://conan.example/mylib.tgz'')])"
  by (simp add: download_def requestedLibraries_def getAllPossibleBuilds_def
      fixtureServer_def getConanBuildProperties_def findMatchingHash_def buildMatches_def
      properties_def propertyMatches_def exactBuild_def fetchPackage_def getPackageUrl_def
      downloadAndExtractPackage_def bigint_div_def fixtureArchive_def emptyDisk_def
      evaluate_entry evaluate_paths evaluate_instances)

text \<open>
  Claim C5. \<open>getPackageUrl\<close> rejects when the answer to the query for download URLs has
  no \<open>conan_package.tgz\<close> entry. Once a hash has been matched for a library, a rejection of
  \<open>getPackageUrl\<close> or of \<open>downloadAndExtractPackage\<close> is the outcome of that library's
  element of \<open>allDownloads\<close>, and \<open>download\<close> rejects: nothing catches the error, unlike
  a failure of the search.
\<close>

theorem failure_after_match_is_fatal:
  assumes needed: "packagedheaders details \<or> hasBinariesToLink this details"
    and name: "name = orElse (lookupname details) libId"
    and ver: "ver = orElse (lookupversion details) (version details)"
    and props: "buildProperties = getConanBuildProperties this key"
    and listed: "fst (getAllPossibleBuilds env name ver) = Inr builds"
    and matched: "findMatchingHash buildProperties builds = Some hash"
    and hash: "hash \<noteq> []"
    and before: "before = fst (snd (dispatchDownloads this env buildProperties dirPath
        (fst (startSearches this env pre)) fs))"
    and failed: "fst (fetchPackage this env libId name ver hash dirPath before) = Inl e"
  shows "isl (fst (download this env key dirPath (pre @ (libId, details) # post) fs))
         \<and> (download_urls env name ver hash = Response status (Some body) \<and>
              body ''conan_package.tgz'' = None \<longrightarrow>
              fst (getPackageUrl env name ver hash) = Inl NoPackageUrl)
         \<and> (fst (getPackageUrl env name ver hash) = Inl e' \<longrightarrow>
              fst (fetchPackage this env libId name ver hash dirPath fs') = Inl e')
         \<and> (fst (getPackageUrl env name ver hash) = Inr url \<and>
              fst (downloadAndExtractPackage this env libId ver dirPath url fs') = Inl e' \<longrightarrow>
              fst (fetchPackage this env libId name ver hash dirPath fs') = Inl e')"
proof -
  let ?bp = "getConanBuildProperties this key"
  obtain A logA where A: "startSearches this env pre = (A, logA)"
    by (cases "startSearches this env pre")
  obtain B logB where B: "startSearches this env post = (B, logB)"
    by (cases "startSearches this env post")
  obtain log1 where found: "getAllPossibleBuilds env name ver = (Inr builds, log1)"
    using listed by (cases "getAllPossibleBuilds env name ver") simp
  define l where "l = \<lparr>lib_id = libId, lib_version = version details,
      lib_lookupname = lookupname details, lib_lookupversion = lookupversion details,
      possibleBuilds = Some builds\<rparr>"
  have one: "startSearches this env ((libId, details) # post) = (l # B, log1 @ logB)"
    using needed found B by (simp add: l_def name ver Let_def)
  have full: "startSearches this env (pre @ (libId, details) # post) = (A @ l # B, logA @ log1 @ logB)"
    by (simp only: startSearches_append [of this env pre] A one fst_conv snd_conv)
  obtain r1 fs1 e1 where dA: "dispatchDownloads this env ?bp dirPath A fs = (r1, fs1, e1)"
    by (cases "dispatchDownloads this env ?bp dirPath A fs") auto
  have fs1: "before = fs1"
    by (simp add: before props A dA)
  obtain fs2 e2 where fetched: "fetchPackage this env libId name ver hash dirPath fs1 = (Inl e, fs2, e2)"
    using failed fs1 by (cases "fetchPackage this env libId name ver hash dirPath fs1") simp
  obtain r3 fs3 e3 where dB: "dispatchDownloads this env ?bp dirPath B fs2 = (r3, fs3, e3)"
    by (cases "dispatchDownloads this env ?bp dirPath B fs2") auto
  have dispatched: "dispatchDownloads this env ?bp dirPath (l # B) fs1 =
      (Inl e # r3, fs3, Log Debug (FoundHash hash (name @ ''/'' @ ver)) # e2 @ e3)"
    using matched hash fetched dB by (simp add: l_def name ver props Let_def)
  have dfull: "dispatchDownloads this env ?bp dirPath (A @ l # B) fs =
      (r1 @ Inl e # r3, fs3, e1 @ Log Debug (FoundHash hash (name @ ''/'' @ ver)) # e2 @ e3)"
    by (simp only: dispatchDownloads_append [of this env ?bp dirPath A] dA dispatched prod.case)
  have run: "fst (download this env key dirPath (pre @ (libId, details) # post) fs) =
      promiseAll (r1 @ Inl e # r3)"
    by (simp only: download_def full Let_def prod.case dfull fst_conv)
  have fatal: "isl (fst (download this env key dirPath (pre @ (libId, details) # post) fs))"
    unfolding run by (rule promiseAll_rejects [of e]) simp
  have missing: "download_urls env name ver hash = Response status (Some body) \<and>
      body ''conan_package.tgz'' = None \<longrightarrow>
      fst (getPackageUrl env name ver hash) = Inl NoPackageUrl"
    by (simp add: getPackageUrl_def)
  have url: "fst (getPackageUrl env name ver hash) = Inl e' \<longrightarrow>
      fst (fetchPackage this env libId name ver hash dirPath fs') = Inl e'"
    by (cases "getPackageUrl env name ver hash") (auto simp add: fetchPackage_def)
  have unpack: "fst (getPackageUrl env name ver hash) = Inr url \<and>
      fst (downloadAndExtractPackage this env libId ver dirPath url fs') = Inl e' \<longrightarrow>
      fst (fetchPackage this env libId name ver hash dirPath fs') = Inl e'"
    by (cases "getPackageUrl env name ver hash")
      (auto simp add: fetchPackage_def split: prod.splits)
  from fatal missing url unpack show ?thesis
    by simp
qed

theorem failure_after_match_is_fatal_witness:
  "fst (getAllPossibleBuilds brokenServer ''mylib'' ''2.1'') = Inr [(''abc123'', exactBuild)]
   \<and> findMatchingHash (getConanBuildProperties gccSetup ()) [(''abc123'', exactBuild)] = Some ''abc123''
   \<and> fst (getPackageUrl brokenServer ''mylib'' ''2.1'' ''abc123'') = Inl NoPackageUrl
   \<and> fst (download gccSetup brokenServer () ''/tmp/build'' requestedLibraries emptyDisk) =
       Inl NoPackageUrl
   \<and> isl (fst (download gccSetup brokenServer () ''/tmp/build'' requestedLibraries emptyDisk))"
proof -
  let ?nolib = "(''nolib'', \<lparr>version = ''1.0'', lookupname = None, lookupversion = None,
      packagedheaders = True\<rparr>)"
  let ?details = "\<lparr>version = ''2.1'', lookupname = None, lookupversion = None,
      packagedheaders = True\<rparr>"
  have libs: "requestedLibraries = [?nolib] @ (''mylib'', ?details) # []"
    by (simp add: requestedLibraries_def)
  have needed: "packagedheaders ?details \<or> hasBinariesToLink gccSetup ?details"
    by simp
  have name: "''mylib'' = orElse (lookupname ?details) ''mylib''"
    by simp
  have ver: "''2.1'' = orElse (lookupversion ?details) (version ?details)"
    by simp
  have listed: "fst (getAllPossibleBuilds brokenServer ''mylib'' ''2.1'') =
      Inr [(''abc123'', exactBuild)]"
    by (simp add: getAllPossibleBuilds_def brokenServer_def fixtureServer_def)
  have matched: "findMatchingHash (getConanBuildProperties gccSetup ()) [(''abc123'', exactBuild)] =
      Some ''abc123''"
    by (simp add: getConanBuildProperties_def findMatchingHash_def buildMatches_def
        properties_def propertyMatches_def exactBuild_def evaluate_instances)
  have hash: "''abc123'' \<noteq> []"
    by simp
  have url: "fst (getPackageUrl brokenServer ''mylib'' ''2.1'' ''abc123'') = Inl NoPackageUrl"
    by (simp add: getPackageUrl_def brokenServer_def fixtureServer_def)
  have failed: "fst (fetchPackage gccSetup brokenServer ''mylib'' ''mylib'' ''2.1'' ''abc123''
      ''/tmp/build'' before) = Inl NoPackageUrl" for before
    by (simp add: fetchPackage_def getPackageUrl_def brokenServer_def fixtureServer_def)
  have run: "fst (download gccSetup brokenServer () ''/tmp/build'' requestedLibraries emptyDisk) =
      Inl NoPackageUrl"
    by (simp add: download_def requestedLibraries_def getAllPossibleBuilds_def brokenServer_def
        fixtureServer_def getConanBuildProperties_def findMatchingHash_def buildMatches_def
        properties_def propertyMatches_def exactBuild_def fetchPackage_def getPackageUrl_def
        evaluate_instances Let_def)
  show ?thesis
    using failure_after_match_is_fatal [OF needed name ver refl listed matched hash refl failed,
        where post = "[]" and status = 200 and body = Map.empty and e' = NoPackageUrl
          and fs' = emptyDisk and url = "[]", folded libs]
      listed matched url run
    by simp
qed

end
